theory Spec2Isabelle
  imports Main
begin

section \<open>Python strings\<close>

text \<open>
  The validator \<^verbatim>\<open>claude-skill/scripts/validate_cleanup.py\<close> works on Python \<^verbatim>\<open>str\<close>
  values, which are sequences of Unicode code points. A folder name may start with an
  emoji in the range U+1F300..U+1F9FF, so a string is a list of code points (the values of
  Python's \<^verbatim>\<open>ord\<close>), not a list of bytes.
\<close>

type_synonym pystr = "int list"

definition str :: "string \<Rightarrow> pystr" where
  "str s = map of_char s"

text \<open>
  \<^verbatim>\<open>str.isspace\<close>, which \<^verbatim>\<open>str.split()\<close>, \<^verbatim>\<open>str.strip()\<close> and the regular
  expression class \<^verbatim>\<open>\s\<close> use: the ASCII white space, the separators U+001C..U+001F, and
  the Unicode spaces.
\<close>

definition isspace :: "int \<Rightarrow> bool" where
  "isspace c = ((9 \<le> c \<and> c \<le> 13) \<or> (28 \<le> c \<and> c \<le> 32) \<or> c = 0x85 \<or> c = 0xA0
     \<or> c = 0x1680 \<or> (0x2000 \<le> c \<and> c \<le> 0x200A) \<or> c = 0x2028 \<or> c = 0x2029
     \<or> c = 0x202F \<or> c = 0x205F \<or> c = 0x3000)"

definition ascii_upper :: "int \<Rightarrow> int" where
  "ascii_upper c = (if 97 \<le> c \<and> c \<le> 122 then c - 32 else c)"

definition ascii_lower :: "int \<Rightarrow> int" where
  "ascii_lower c = (if 65 \<le> c \<and> c \<le> 90 then c + 32 else c)"

text \<open>
  The case mappings and character classes of the code points from 128 on come from the
  Unicode database of the Python runtime, which is not part of the repository: it is a
  parameter of the model. \<open>to_upper_full\<close> and \<open>to_title_full\<close> are the full mappings of
  one code point (they may give several code points), \<open>lower_at s i\<close> is the lower-case
  mapping of the code point at index \<open>i\<close> of \<open>s\<close> (it reads the context for the Greek final
  sigma), \<open>is_alnum\<close> is \<^verbatim>\<open>str.isalnum\<close> and \<open>is_decimal\<close> is \<^verbatim>\<open>str.isdecimal\<close>.
  The model consults the database for code points from 128 on only; ASCII is fixed here.
\<close>

record unicode_db =
  to_upper_full :: "int \<Rightarrow> pystr"
  to_title_full :: "int \<Rightarrow> pystr"
  lower_at :: "pystr \<Rightarrow> nat \<Rightarrow> pystr"
  is_alnum :: "int \<Rightarrow> bool"
  is_decimal :: "int \<Rightarrow> bool"

definition upper_cp :: "unicode_db \<Rightarrow> int \<Rightarrow> pystr" where
  "upper_cp U c = (if c < 128 then [ascii_upper c] else to_upper_full U c)"

definition title_cp :: "unicode_db \<Rightarrow> int \<Rightarrow> pystr" where
  "title_cp U c = (if c < 128 then [ascii_upper c] else to_title_full U c)"

definition lower_cp :: "unicode_db \<Rightarrow> pystr \<Rightarrow> nat \<Rightarrow> pystr" where
  "lower_cp U s i = (if s ! i < 128 then [ascii_lower (s ! i)] else lower_at U s i)"

definition py_upper :: "unicode_db \<Rightarrow> pystr \<Rightarrow> pystr" where
  "py_upper U s = concat (map (upper_cp U) s)"

definition py_lower :: "unicode_db \<Rightarrow> pystr \<Rightarrow> pystr" where
  "py_lower U s = concat (map (lower_cp U s) [0..<length s])"

text \<open>\<^verbatim>\<open>str.capitalize\<close>: the first code point in title case, the others in lower case.\<close>

definition py_capitalize :: "unicode_db \<Rightarrow> pystr \<Rightarrow> pystr" where
  "py_capitalize U s =
     (case s of [] \<Rightarrow> [] | c # _ \<Rightarrow> title_cp U c @ concat (map (lower_cp U s) [1..<length s]))"

definition startswith :: "pystr \<Rightarrow> pystr \<Rightarrow> bool" where
  "startswith s p = (take (length p) s = p)"

text \<open>\<^verbatim>\<open>sub in s\<close>.\<close>

fun py_in :: "pystr \<Rightarrow> pystr \<Rightarrow> bool" where
  "py_in sub [] = (sub = [])"
| "py_in sub (c # cs) = (startswith (c # cs) sub \<or> py_in sub cs)"

text \<open>
  \<^verbatim>\<open>s.replace(old, new)\<close> for a non-empty \<open>old\<close>, which is what every call of the
  validator passes: the occurrences are replaced from the left, without overlap.
\<close>

fun py_replace :: "pystr \<Rightarrow> pystr \<Rightarrow> pystr \<Rightarrow> pystr" where
  "py_replace old new [] = []"
| "py_replace old new (c # cs) =
     (if old \<noteq> [] \<and> startswith (c # cs) old
      then new @ py_replace old new (drop (length old - 1) cs)
      else c # py_replace old new cs)"

text \<open>\<^verbatim>\<open>s.split(sep)[0]\<close> for a non-empty \<open>sep\<close>: the text before its first occurrence.\<close>

fun split_first :: "pystr \<Rightarrow> pystr \<Rightarrow> pystr" where
  "split_first sep [] = []"
| "split_first sep (c # cs) = (if startswith (c # cs) sep then [] else c # split_first sep cs)"

definition strip_chars :: "(int \<Rightarrow> bool) \<Rightarrow> pystr \<Rightarrow> pystr" where
  "strip_chars P s = rev (dropWhile P (rev (dropWhile P s)))"

definition py_strip :: "pystr \<Rightarrow> pystr" where
  "py_strip s = strip_chars isspace s"

text \<open>
  \<^verbatim>\<open>s.split()\<close>: the maximal runs of code points that are not white space. \<open>w\<close> is the
  word read so far.
\<close>

fun split_words :: "pystr \<Rightarrow> pystr \<Rightarrow> pystr list" where
  "split_words w [] = (if w = [] then [] else [w])"
| "split_words w (c # cs) =
     (if isspace c then (if w = [] then split_words [] cs else w # split_words [] cs)
      else split_words (w @ [c]) cs)"

definition py_split :: "pystr \<Rightarrow> pystr list" where
  "py_split s = split_words [] s"

fun py_join :: "pystr \<Rightarrow> pystr list \<Rightarrow> pystr" where
  "py_join sep [] = []"
| "py_join sep [w] = w"
| "py_join sep (w # ws) = w @ sep @ py_join sep ws"

text \<open>\<^verbatim>\<open>str(n)\<close> for a length or a count.\<close>

fun str_of_nat :: "nat \<Rightarrow> pystr" where
  "str_of_nat n = (if n < 10 then [48 + int n] else str_of_nat (n div 10) @ [48 + int (n mod 10)])"

text \<open>An f-string prints \<^verbatim>\<open>None\<close> for a missing value.\<close>

definition fmt :: "pystr option \<Rightarrow> pystr" where
  "fmt v = (case v of None \<Rightarrow> str ''None'' | Some s \<Rightarrow> s)"

text \<open>\<^verbatim>\<open>if v:\<close> on an optional string: neither \<^verbatim>\<open>None\<close> nor empty.\<close>

definition truthy :: "pystr option \<Rightarrow> bool" where
  "truthy v = (case v of None \<Rightarrow> False | Some s \<Rightarrow> s \<noteq> [])"

text \<open>\<^verbatim>\<open>a or b\<close>.\<close>

definition py_or :: "pystr option \<Rightarrow> pystr option \<Rightarrow> pystr option" where
  "py_or a b = (if truthy a then a else b)"

section \<open>Regular expressions\<close>

text \<open>
  The patterns the validator hands to Python's \<^verbatim>\<open>re\<close> module use literals, classes,
  concatenation, alternation, greedy repetition, the anchors \<^verbatim>\<open>^\<close>, \<^verbatim>\<open>$\<close> and \<^verbatim>\<open>\b\<close>,
  and one negative lookahead. A cursor is the code point before the current position
  (\<open>None\<close> at the start of the text) and the text from the position on; \<open>advance r k\<close>
  lists the cursors that a match of \<open>r\<close> starting at \<open>k\<close> can end at, in the order in
  which a backtracking matcher tries them.
\<close>

datatype regex =
    Sym "int \<Rightarrow> bool"
  | Eps
  | Cat regex regex
  | Alt regex regex
  | Star regex
  | Bol
  | Eol
  | Boundary "int \<Rightarrow> bool"
  | NotAhead regex

type_synonym cursor = "int option \<times> pystr"

fun advance :: "regex \<Rightarrow> cursor \<Rightarrow> cursor list" where
  "advance (Sym P) k = (case snd k of [] \<Rightarrow> [] | c # cs \<Rightarrow> if P c then [(Some c, cs)] else [])"
| "advance Eps k = [k]"
| "advance (Cat a b) k = concat (map (advance b) (advance a k))"
| "advance (Alt a b) k = advance a k @ advance b k"
| "advance (Star a) k =
     concat (map (\<lambda>k'. if length (snd k') < length (snd k) then advance (Star a) k' else [])
                 (advance a k)) @ [k]"
| "advance Bol k = (if fst k = None then [k] else [])"
| "advance Eol k = (if snd k = [] \<or> snd k = [10] then [k] else [])"
| "advance (Boundary W) k =
     (if (case fst k of None \<Rightarrow> False | Some p \<Rightarrow> W p) \<noteq> (case snd k of [] \<Rightarrow> False | c # _ \<Rightarrow> W c)
      then [k] else [])"
| "advance (NotAhead a) k = (if advance a k = [] then [k] else [])"

text \<open>\<^verbatim>\<open>pattern.match(s)\<close>: the text of the match at the start of \<open>s\<close>, if there is one.\<close>

definition re_match :: "regex \<Rightarrow> pystr \<Rightarrow> pystr option" where
  "re_match r s =
     (case advance r (None, s) of [] \<Rightarrow> None | k # _ \<Rightarrow> Some (take (length s - length (snd k)) s))"

text \<open>\<^verbatim>\<open>pattern.search(s)\<close>: the text of the leftmost match.\<close>

fun search_from :: "regex \<Rightarrow> int option \<Rightarrow> pystr \<Rightarrow> pystr option" where
  "search_from r prev [] = (case advance r (prev, []) of [] \<Rightarrow> None | k # _ \<Rightarrow> Some [])"
| "search_from r prev (c # cs) =
     (case advance r (prev, c # cs) of
        [] \<Rightarrow> search_from r (Some c) cs
      | k # _ \<Rightarrow> Some (take (length (c # cs) - length (snd k)) (c # cs)))"

definition re_search :: "regex \<Rightarrow> pystr \<Rightarrow> pystr option" where
  "re_search r s = search_from r None s"

fun seq :: "regex list \<Rightarrow> regex" where
  "seq [] = Eps"
| "seq [r] = r"
| "seq (r # rs) = Cat r (seq rs)"

fun alts :: "regex list \<Rightarrow> regex" where
  "alts [] = NotAhead Eps"
| "alts [r] = r"
| "alts (r # rs) = Alt r (alts rs)"

definition rplus :: "regex \<Rightarrow> regex" where
  "rplus r = Cat r (Star r)"

definition ropt :: "regex \<Rightarrow> regex" where
  "ropt r = Alt r Eps"

text \<open>\<^verbatim>\<open>r{0,n}\<close>, greedy.\<close>

fun upto_times :: "nat \<Rightarrow> regex \<Rightarrow> regex" where
  "upto_times 0 r = Eps"
| "upto_times (Suc n) r = Alt (Cat r (upto_times n r)) Eps"

definition lit :: "pystr \<Rightarrow> regex" where
  "lit s = seq (map (\<lambda>c. Sym (\<lambda>x. x = c)) s)"

text \<open>
  A literal ASCII code point under \<^verbatim>\<open>re.IGNORECASE\<close>: either case of the letter, and the
  four letters outside ASCII that Python's documentation lists as matching an ASCII letter
  then (U+0130 and U+0131 for \<^verbatim>\<open>i\<close>, U+017F for \<^verbatim>\<open>s\<close>, U+212A for \<^verbatim>\<open>k\<close>).
\<close>

definition ci_eq :: "int \<Rightarrow> int \<Rightarrow> bool" where
  "ci_eq p x = (ascii_lower x = ascii_lower p
     \<or> (ascii_lower p = 105 \<and> (x = 0x130 \<or> x = 0x131))
     \<or> (ascii_lower p = 115 \<and> x = 0x17F)
     \<or> (ascii_lower p = 107 \<and> x = 0x212A))"

definition liti :: "pystr \<Rightarrow> regex" where
  "liti s = seq (map (\<lambda>c. Sym (ci_eq c)) s)"

definition ascii_digit :: "int \<Rightarrow> bool" where
  "ascii_digit c = (48 \<le> c \<and> c \<le> 57)"

definition ascii_alnum :: "int \<Rightarrow> bool" where
  "ascii_alnum c = (ascii_digit c \<or> (65 \<le> c \<and> c \<le> 90) \<or> (97 \<le> c \<and> c \<le> 122))"

text \<open>The classes \<^verbatim>\<open>\d\<close>, \<^verbatim>\<open>\w\<close> and \<^verbatim>\<open>[0-9A-Fa-f]\<close> of a \<^verbatim>\<open>str\<close> pattern.\<close>

definition re_digit :: "unicode_db \<Rightarrow> int \<Rightarrow> bool" where
  "re_digit U c = (if c < 128 then ascii_digit c else is_decimal U c)"

definition re_word :: "unicode_db \<Rightarrow> int \<Rightarrow> bool" where
  "re_word U c = (if c < 128 then ascii_alnum c \<or> c = 95 else is_alnum U c)"

definition hex_digit :: "int \<Rightarrow> bool" where
  "hex_digit c = (ascii_digit c \<or> (65 \<le> c \<and> c \<le> 70) \<or> (97 \<le> c \<and> c \<le> 102))"

abbreviation white :: regex where
  "white \<equiv> Sym isspace"

section \<open>The rule tables\<close>

text \<open>
  \<^verbatim>\<open>ACRONYMS\<close> is a Python set; the order in which rule C4 walks it is not fixed by the
  language. The list keeps the order of the source text.
\<close>

definition ACRONYMS :: "pystr list" where
  "ACRONYMS = map str [''ID'', ''YTD'', ''MTD'', ''QTD'', ''KPI'', ''ROI'', ''YOY'', ''MOM'', ''WOW'',
     ''LOD'', ''RLS'', ''API'', ''URL'', ''SQL'', ''AVG'', ''SUM'', ''MIN'', ''MAX'']"

definition MAX_FOLDERS :: nat where
  "MAX_FOLDERS = 6"

definition MIN_COMMENT_LENGTH :: nat where
  "MIN_COMMENT_LENGTH = 15"

text \<open>
  \<^verbatim>\<open>LAZY_COMMENT_PATTERNS\<close>, each compiled with \<^verbatim>\<open>re.IGNORECASE\<close>:
  \<^item> \<^verbatim>\<open>^//\s*(calculated\s+field|calculation|formula|field)\s*$\<close>
  \<^item> \<^verbatim>\<open>^//\s*(returns?\s+\d|case\s+statement|date\s+calculation|sum\s+of|if\s+statement)\<close>
  \<^item> \<^verbatim>\<open>^//\s*\w{1,6}\s*$\<close>
  \<^item> \<^verbatim>\<open>^//\s*(this|the|a|an)\s+(field|calc|calculation|formula|value)\s*\<close>
  \<^item> \<^verbatim>\<open>^//\s*(boolean|string|number|integer|float|date)\s*(field|value|calc)?\s*$\<close>
\<close>

definition LAZY_COMMENT_PATTERNS :: "unicode_db \<Rightarrow> regex list" where
  "LAZY_COMMENT_PATTERNS U =
    [seq [Bol, lit (str ''//''), Star white,
          alts [seq [liti (str ''calculated''), rplus white, liti (str ''field'')],
                liti (str ''calculation''), liti (str ''formula''), liti (str ''field'')],
          Star white, Eol],
     seq [Bol, lit (str ''//''), Star white,
          alts [seq [liti (str ''return''), ropt (liti (str ''s'')), rplus white, Sym (re_digit U)],
                seq [liti (str ''case''), rplus white, liti (str ''statement'')],
                seq [liti (str ''date''), rplus white, liti (str ''calculation'')],
                seq [liti (str ''sum''), rplus white, liti (str ''of'')],
                seq [liti (str ''if''), rplus white, liti (str ''statement'')]]],
     seq [Bol, lit (str ''//''), Star white,
          Cat (Sym (re_word U)) (upto_times 5 (Sym (re_word U))), Star white, Eol],
     seq [Bol, lit (str ''//''), Star white,
          alts [liti (str ''this''), liti (str ''the''), liti (str ''a''), liti (str ''an'')],
          rplus white,
          alts [liti (str ''field''), liti (str ''calc''), liti (str ''calculation''),
                liti (str ''formula''), liti (str ''value'')],
          Star white],
     seq [Bol, lit (str ''//''), Star white,
          alts [liti (str ''boolean''), liti (str ''string''), liti (str ''number''),
                liti (str ''integer''), liti (str ''float''), liti (str ''date'')],
          Star white,
          ropt (alts [liti (str ''field''), liti (str ''value''), liti (str ''calc'')]),
          Star white, Eol]]"

text \<open>\<^verbatim>\<open>\b{acronym}\b\<close> with \<^verbatim>\<open>re.IGNORECASE\<close> (rule C4).\<close>

definition acronym_pattern :: "unicode_db \<Rightarrow> pystr \<Rightarrow> regex" where
  "acronym_pattern U acronym = seq [Boundary (re_word U), liti acronym, Boundary (re_word U)]"

text \<open>\<^verbatim>\<open>\)\s*\(\<close> (rule C5).\<close>

definition double_paren_pattern :: regex where
  "double_paren_pattern = seq [lit (str '')''), Star white, lit (str ''('')]"

text \<open>\<^verbatim>\<open>&(?!(amp|apos|quot|lt|gt|#\d+|#x[0-9A-Fa-f]+);)\<close> (rule M5).\<close>

definition unescaped_amp_pattern :: "unicode_db \<Rightarrow> regex" where
  "unescaped_amp_pattern U =
     Cat (lit (str ''&''))
         (NotAhead (Cat (alts [lit (str ''amp''), lit (str ''apos''), lit (str ''quot''),
                               lit (str ''lt''), lit (str ''gt''),
                               Cat (lit (str ''#'')) (rplus (Sym (re_digit U))),
                               Cat (lit (str ''#x'')) (rplus (Sym hex_digit))])
                         (lit (str '';''))))"

text \<open>\<^verbatim>\<open>^([\U0001F300-\U0001F9FF]|&#x[0-9A-Fa-f]+;)\<close> (rules F10 and F11).\<close>

definition emoji_pattern :: regex where
  "emoji_pattern =
     Cat Bol (Alt (Sym (\<lambda>c. 0x1F300 \<le> c \<and> c \<le> 0x1F9FF))
                  (seq [lit (str ''&#x''), rplus (Sym hex_digit), lit (str '';'')]))"

section \<open>The text normalizer\<close>

text \<open>
  \<^verbatim>\<open>to_title_case\<close>: underscores become spaces, the text is split at white space, a word
  whose upper-case form is an acronym is written in upper case and any other word is
  capitalized, and the words are joined with single spaces.
\<close>

definition title_word :: "unicode_db \<Rightarrow> pystr \<Rightarrow> pystr" where
  "title_word U word =
     (let upper = py_upper U word in
      if upper \<in> set ACRONYMS then upper else py_capitalize U word)"

definition to_title_case :: "unicode_db \<Rightarrow> pystr \<Rightarrow> pystr" where
  "to_title_case U text =
     (let words = py_split (py_replace (str ''_'') (str '' '') text) in
      py_join (str '' '') (map (title_word U) words))"

text \<open>A text of ASCII code points, and a word as \<^verbatim>\<open>split()\<close> gives it.\<close>

definition ascii :: "pystr \<Rightarrow> bool" where
  "ascii s = (\<forall>c \<in> set s. c < 128)"

definition is_word :: "pystr \<Rightarrow> bool" where
  "is_word w = (w \<noteq> [] \<and> (\<forall>c \<in> set w. \<not> isspace c))"

section \<open>The validation result\<close>

text \<open>
  \<^verbatim>\<open>ValidationResult\<close> keeps two lists of report lines, each printed from a rule, a
  field and a message (\<^verbatim>\<open>[ERROR] rule: "field" - message\<close>). The model keeps the three
  parts of a line.
\<close>

type_synonym entry = "string \<times> pystr \<times> pystr"

record validation_result =
  errors :: "entry list"
  passes :: "entry list"

definition new_result :: validation_result where
  "new_result = \<lparr>errors = [], passes = []\<rparr>"

definition error :: "string \<Rightarrow> pystr \<Rightarrow> pystr \<Rightarrow> validation_result \<Rightarrow> validation_result" where
  "error rule field message result = result\<lparr>errors := errors result @ [(rule, field, message)]\<rparr>"

definition passed :: "string \<Rightarrow> pystr \<Rightarrow> pystr \<Rightarrow> validation_result \<Rightarrow> validation_result" where
  "passed rule field message result = result\<lparr>passes := passes result @ [(rule, field, message)]\<rparr>"

definition has_errors :: "validation_result \<Rightarrow> bool" where
  "has_errors result = (length (errors result) > 0)"

text \<open>The entries of one rule.\<close>

definition of_rule :: "string \<Rightarrow> entry list \<Rightarrow> entry list" where
  "of_rule rule es = filter (\<lambda>e. fst e = rule) es"

section \<open>Caption rules C1 to C5\<close>

definition check_C1 :: "unicode_db \<Rightarrow> pystr option \<Rightarrow> pystr \<Rightarrow> validation_result \<Rightarrow> validation_result" where
  "check_C1 U caption display_name result =
     (case caption of
        None \<Rightarrow> result
      | Some c \<Rightarrow>
          if c = [] then result
          else let expected = to_title_case U c in
            if c \<noteq> expected \<and> py_lower U c \<noteq> py_lower U expected then
              if py_lower U (py_replace (str '' '') [] c) = py_lower U (py_replace (str '' '') [] expected) then
                if c \<noteq> expected
                then error ''C1'' display_name (str ''should be '' @ [34] @ expected @ [34]) result
                else result
              else result
            else result)"

definition check_C2 :: "pystr option \<Rightarrow> pystr \<Rightarrow> validation_result \<Rightarrow> validation_result" where
  "check_C2 caption display_name result =
     (case caption of
        None \<Rightarrow> result
      | Some c \<Rightarrow>
          if c \<noteq> [] \<and> py_in (str ''_'') c
          then error ''C2'' display_name (str ''contains underscore'') result
          else result)"

definition check_C3 :: "unicode_db \<Rightarrow> pystr option \<Rightarrow> pystr \<Rightarrow> validation_result \<Rightarrow> validation_result" where
  "check_C3 U caption display_name result =
     (case caption of
        None \<Rightarrow> result
      | Some c \<Rightarrow>
          if c \<noteq> [] \<and> startswith (py_lower U c) (str ''c_'')
          then error ''C3'' display_name (str ''has deprecated c_ prefix'') result
          else result)"

definition check_C4 :: "unicode_db \<Rightarrow> pystr option \<Rightarrow> pystr \<Rightarrow> validation_result \<Rightarrow> validation_result" where
  "check_C4 U caption display_name result =
     (case caption of
        None \<Rightarrow> result
      | Some c \<Rightarrow>
          if c = [] then result
          else foldl (\<lambda>r acronym.
                 case re_search (acronym_pattern U acronym) c of
                   None \<Rightarrow> r
                 | Some g \<Rightarrow>
                     if g \<noteq> acronym
                     then error ''C4'' display_name
                            ([34] @ g @ [34] @ str '' should be '' @ [34] @ acronym @ [34]) r
                     else r)
               result ACRONYMS)"

definition check_C5 :: "pystr option \<Rightarrow> pystr \<Rightarrow> validation_result \<Rightarrow> validation_result" where
  "check_C5 caption display_name result =
     (case caption of
        None \<Rightarrow> result
      | Some c \<Rightarrow>
          if c \<noteq> [] \<and> re_search double_paren_pattern c \<noteq> None
          then error ''C5'' display_name (str ''has double parentheses '' @ [34] @ str ''()()'' @ [34]) result
          else result)"

definition validate_caption :: "unicode_db \<Rightarrow> pystr option \<Rightarrow> pystr option \<Rightarrow> validation_result \<Rightarrow> validation_result" where
  "validate_caption U caption name result =
     (let display_name = fmt (py_or caption name) in
      check_C5 caption display_name
        (check_C4 U caption display_name
          (check_C3 U caption display_name
            (check_C2 caption display_name
              (check_C1 U caption display_name result)))))"

section \<open>Comment rules M1 to M6\<close>

text \<open>
  M3 reads the first line of the comment: a message for a comment that is too short, else
  for one that matches a lazy pattern (the loop stops at the first pattern that matches),
  else for one that restates the caption.
\<close>

definition check_M3 :: "unicode_db \<Rightarrow> pystr \<Rightarrow> pystr option \<Rightarrow> pystr \<Rightarrow> validation_result \<Rightarrow> validation_result" where
  "check_M3 U formula_stripped caption display_name result =
     (let comment_line =
            (if py_in [10] formula_stripped then split_first [10] formula_stripped
             else split_first (str ''&#13;'') formula_stripped);
          comment_text = py_strip (py_replace (str ''//'') [] comment_line)
      in if length comment_text < MIN_COMMENT_LENGTH then
           error ''M3'' display_name
             (str ''comment too short ('' @ str_of_nat (length comment_text) @ str '' chars, need ''
                @ str_of_nat MIN_COMMENT_LENGTH @ str ''+)'') result
         else if list_ex (\<lambda>pattern. re_match pattern comment_line \<noteq> None) (LAZY_COMMENT_PATTERNS U) then
           error ''M3'' display_name
             (str ''lazy/generic comment - explain PURPOSE, not just '' @ [34] @ take 30 comment_text @ [34])
             result
         else if truthy caption \<and>
                 py_strip (py_replace (str ''-'') (str '' '')
                             (py_replace (str ''_'') (str '' '') (py_lower U (the caption))))
                   = py_strip (py_lower U comment_text) then
           error ''M3'' display_name (str ''comment just restates caption - explain PURPOSE instead'') result
         else result)"

text \<open>M4 and M5 read the raw formula only, and only when there is one.\<close>

definition check_M4 :: "pystr option \<Rightarrow> pystr \<Rightarrow> validation_result \<Rightarrow> validation_result" where
  "check_M4 raw_formula display_name result =
     (case raw_formula of
        None \<Rightarrow> result
      | Some raw \<Rightarrow>
          if raw \<noteq> [] \<and> py_in [10] raw \<and> \<not> py_in (str ''&#13;'') raw
          then error ''M4'' display_name (str ''newline not XML-encoded (use &#13;&#10;)'') result
          else result)"

definition check_M5 :: "unicode_db \<Rightarrow> pystr option \<Rightarrow> pystr \<Rightarrow> validation_result \<Rightarrow> validation_result" where
  "check_M5 U raw_formula display_name result =
     (case raw_formula of
        None \<Rightarrow> result
      | Some raw \<Rightarrow>
          if raw \<noteq> [] \<and> re_search (unescaped_amp_pattern U) raw \<noteq> None
          then error ''M5'' display_name (str ''unescaped & in formula/comment'') result
          else result)"

text \<open>
  \<^verbatim>\<open>validate_comment\<close>. The four early returns are the first four branches. The last
  block of the source (M6) computes the comment line and records nothing.
\<close>

definition validate_comment ::
  "unicode_db \<Rightarrow> pystr option \<Rightarrow> pystr option \<Rightarrow> pystr option \<Rightarrow> validation_result
     \<Rightarrow> pystr option \<Rightarrow> pystr option \<Rightarrow> validation_result" where
  "validate_comment U formula caption name result raw_formula calc_class =
     (let display_name = fmt (py_or caption name) in
      if calc_class = Some (str ''categorical-bin'') \<or> calc_class = Some (str ''quantitative-bin'') then
        passed ''M1'' display_name (str ''bin/group calc - no formula to comment'') result
      else case formula of
        None \<Rightarrow> passed ''M1'' display_name (str ''no formula attribute - skipping'') result
      | Some f \<Rightarrow>
          let formula_stripped = (if f \<noteq> [] then py_strip f else []) in
          if formula_stripped = [] then
            passed ''M1'' display_name (str ''empty formula - skipping'') result
          else if \<not> startswith formula_stripped (str ''//'') then
            error ''M1'' display_name (str ''missing comment'') result
          else
            check_M5 U raw_formula display_name
              (check_M4 raw_formula display_name
                (check_M3 U formula_stripped caption display_name
                  (passed ''M2'' display_name (str ''starts with //'')
                    (passed ''M1'' display_name (str ''has comment'') result)))))"

section \<open>The document\<close>

text \<open>
  An ElementTree element has a tag, attributes and children. Python compares two elements
  by identity (\<^verbatim>\<open>folders_common in list(elem)\<close>, \<^verbatim>\<open>f not in folders_in_common\<close>), so
  an element of a document is handled as a node: the element with its path from the root,
  the list of child indices that leads to it.
\<close>

datatype element = Element (tag: pystr) (attrib: "(pystr \<times> pystr) list") (children: "element list")

type_synonym node = "nat list \<times> element"

text \<open>\<^verbatim>\<open>elem.get(key)\<close> and \<^verbatim>\<open>elem.get(key, default)\<close>.\<close>

definition attr :: "element \<Rightarrow> pystr \<Rightarrow> pystr option" where
  "attr e key = map_of (attrib e) key"

definition attr_or :: "element \<Rightarrow> pystr \<Rightarrow> pystr \<Rightarrow> pystr" where
  "attr_or e key dflt = (case attr e key of None \<Rightarrow> dflt | Some v \<Rightarrow> v)"

text \<open>\<^verbatim>\<open>root.iter()\<close>: the root and its descendants in document order.\<close>

fun iter :: "element \<Rightarrow> node list"
  and iter_from :: "nat \<Rightarrow> element list \<Rightarrow> node list" where
  "iter (Element t a cs) = ([], Element t a cs) # iter_from 0 cs"
| "iter_from i [] = []"
| "iter_from i (c # cs) = map (\<lambda>n. (i # fst n, snd n)) (iter c) @ iter_from (Suc i) cs"

text \<open>\<^verbatim>\<open>list(elem)\<close>: the children of a node.\<close>

definition kids :: "node \<Rightarrow> node list" where
  "kids n = map (\<lambda>ic. (fst n @ [fst ic], snd ic)) (enumerate 0 (children (snd n)))"

text \<open>
  \<^verbatim>\<open>root.find('.//t')\<close> and \<^verbatim>\<open>root.findall('.//t')\<close> look among the descendants of the
  root, not at the root; \<^verbatim>\<open>elem.find('t')\<close> and \<^verbatim>\<open>elem.findall('t')\<close> look among the
  children.
\<close>

definition findall_desc :: "pystr \<Rightarrow> element \<Rightarrow> node list" where
  "findall_desc t root = filter (\<lambda>n. tag (snd n) = t) (tl (iter root))"

definition find_desc :: "pystr \<Rightarrow> element \<Rightarrow> node option" where
  "find_desc t root = List.find (\<lambda>n. tag (snd n) = t) (tl (iter root))"

definition findall_child :: "pystr \<Rightarrow> node \<Rightarrow> node list" where
  "findall_child t n = filter (\<lambda>k. tag (snd k) = t) (kids n)"

definition find_in :: "pystr \<Rightarrow> element \<Rightarrow> element option" where
  "find_in t e = List.find (\<lambda>c. tag c = t) (children e)"

definition findall_in :: "pystr \<Rightarrow> element \<Rightarrow> element list" where
  "findall_in t e = filter (\<lambda>c. tag c = t) (children e)"

text \<open>\<^verbatim>\<open>xs.index(x) if x in xs else -1\<close>.\<close>

definition index_or_minus :: "'a list \<Rightarrow> 'a \<Rightarrow> int" where
  "index_or_minus xs x = (if x \<in> set xs then int (length (takeWhile (\<lambda>y. y \<noteq> x) xs)) else - 1)"

section \<open>Folder rules F1 to F11\<close>

definition check_F3 :: "element \<Rightarrow> node \<Rightarrow> node option \<Rightarrow> validation_result \<Rightarrow> validation_result" where
  "check_F3 root folders_common layout result =
     (case layout of
        None \<Rightarrow> result
      | Some lay \<Rightarrow>
          (case List.find (\<lambda>elem. fst folders_common \<in> set (map fst (kids elem))
                                  \<and> fst lay \<in> set (map fst (kids elem))) (iter root) of
             None \<Rightarrow> result
           | Some parent \<Rightarrow>
               let children = map fst (kids parent);
                   fc_idx = index_or_minus children (fst folders_common);
                   layout_idx = index_or_minus children (fst lay)
               in if fc_idx > layout_idx \<and> layout_idx \<noteq> - 1
                  then error ''F3'' (str ''XML'') (str ''<folders-common> must appear before <layout>'') result
                  else passed ''F3'' (str ''XML'') (str ''<folders-common> is before <layout>'') result))"

definition check_F4 :: "node list \<Rightarrow> node list \<Rightarrow> validation_result \<Rightarrow> validation_result" where
  "check_F4 all_folders folders_in_common result =
     (let folders_outside = filter (\<lambda>f. fst f \<notin> set (map fst folders_in_common)) all_folders
      in if folders_outside \<noteq> []
         then error ''F4'' (str ''XML'')
                (str_of_nat (length folders_outside) @ str '' <folder> elements outside <folders-common>'')
                result
         else passed ''F4'' (str ''XML'') (str ''all <folder> elements inside <folders-common>'') result)"

definition check_F5 :: "element list \<Rightarrow> validation_result \<Rightarrow> validation_result" where
  "check_F5 folders result =
     foldl (\<lambda>r folder.
              if truthy (attr folder (str ''role''))
              then error ''F5'' (attr_or folder (str ''name'') (str ''unnamed''))
                     (str ''has invalid role attribute'') r
              else r)
       result folders"

text \<open>The names of the folder items of all folders (a Python set, read by membership only).\<close>

definition fields_in_folders :: "element list \<Rightarrow> pystr set" where
  "fields_in_folders folders =
     set (concat (map (\<lambda>folder.
            concat (map (\<lambda>item. case attr item (str ''name'') of
                                  None \<Rightarrow> []
                                | Some field_name \<Rightarrow> if field_name \<noteq> [] then [field_name] else [])
                        (findall_in (str ''folder-item'') folder)))
          folders))"

definition check_F1 :: "element list \<Rightarrow> pystr set \<Rightarrow> validation_result \<Rightarrow> validation_result" where
  "check_F1 calculations in_folders result =
     foldl (\<lambda>r calc.
              let calc_name = attr calc (str ''name'');
                  display_name = fmt (py_or (attr calc (str ''caption'')) calc_name)
              in case calc_name of
                   None \<Rightarrow> r
                 | Some n \<Rightarrow>
                     if n \<noteq> [] \<and> n \<notin> in_folders \<and> (str ''['' @ n @ str '']'') \<notin> in_folders then
                       let bracketed = (if \<not> startswith n (str ''['') then str ''['' @ n @ str '']'' else n)
                       in if bracketed \<notin> in_folders \<and> n \<notin> in_folders
                          then error ''F1'' display_name (str ''not in any folder'') r
                          else r
                     else r)
       result calculations"

definition check_F6 :: "element list \<Rightarrow> pystr option set \<Rightarrow> validation_result \<Rightarrow> validation_result" where
  "check_F6 folders calc_names result =
     foldl (\<lambda>r item.
              let field_name = attr_or item (str ''name'') [];
                  clean_name = strip_chars (\<lambda>c. c \<in> set (str ''[]'')) field_name
              in if Some clean_name \<notin> calc_names \<and> Some field_name \<notin> calc_names
                 then error ''F6'' field_name (str ''not found in workbook'') r
                 else r)
       result (concat (map (findall_in (str ''folder-item'')) folders))"

definition check_F7 :: "node option \<Rightarrow> validation_result \<Rightarrow> validation_result" where
  "check_F7 layout result =
     (case layout of
        None \<Rightarrow> result
      | Some lay \<Rightarrow>
          if attr (snd lay) (str ''show-structure'') \<noteq> Some (str ''true'')
          then error ''F7'' (str ''XML'')
                 (str ''<layout> missing show-structure='' @ [39] @ str ''true'' @ [39]) result
          else passed ''F7'' (str ''XML'')
                 (str ''<layout> has show-structure='' @ [39] @ str ''true'' @ [39]) result)"

definition check_F8 :: "element list \<Rightarrow> validation_result \<Rightarrow> validation_result" where
  "check_F8 folders result =
     foldl (\<lambda>r folder.
              let folder_name = attr_or folder (str ''name'') []
              in if py_in (str ''&'') folder_name \<and> \<not> py_in (str ''&amp;'') folder_name
                 then error ''F8'' folder_name (str ''has unescaped &'') r
                 else r)
       result folders"

definition check_F9 :: "element list \<Rightarrow> validation_result \<Rightarrow> validation_result" where
  "check_F9 folders result =
     (if length folders > MAX_FOLDERS
      then error ''F9'' (str ''XML'')
             (str ''Too many folders ('' @ str_of_nat (length folders) @ str '') - maximum is ''
                @ str_of_nat MAX_FOLDERS) result
      else passed ''F9'' (str ''XML'')
             (str_of_nat (length folders) @ str '' folders (max '' @ str_of_nat MAX_FOLDERS @ str '')'')
             result)"

definition check_F10 :: "element list \<Rightarrow> validation_result \<Rightarrow> validation_result" where
  "check_F10 folders result =
     foldl (\<lambda>r folder.
              let folder_name = attr_or folder (str ''name'') []
              in if re_match emoji_pattern folder_name = None
                 then error ''F10'' folder_name (str ''missing emoji prefix (use &#x1F4CA; format)'') r
                 else r)
       result folders"

text \<open>
  F11 walks the folder names, and then the markers the pattern found, with the set of the
  values seen so far; a value that is already in the set is reported.
\<close>

fun report_duplicates :: "pystr \<Rightarrow> pystr set \<Rightarrow> pystr list \<Rightarrow> validation_result \<Rightarrow> validation_result" where
  "report_duplicates message seen [] result = result"
| "report_duplicates message seen (x # xs) result =
     report_duplicates message (insert x seen) xs
       (if x \<in> seen then error ''F11'' x message result else result)"

definition folder_names :: "element list \<Rightarrow> pystr list" where
  "folder_names folders = map (\<lambda>folder. attr_or folder (str ''name'') []) folders"

definition folder_emojis :: "element list \<Rightarrow> pystr list" where
  "folder_emojis folders =
     concat (map (\<lambda>folder_name. case re_match emoji_pattern folder_name of
                                   None \<Rightarrow> []
                                 | Some g \<Rightarrow> [g])
                 (folder_names folders))"

definition check_F11 :: "element list \<Rightarrow> validation_result \<Rightarrow> validation_result" where
  "check_F11 folders result =
     report_duplicates (str ''duplicate emoji used in multiple folders'') {} (folder_emojis folders)
       (report_duplicates (str ''duplicate folder name'') {} (folder_names folders) result)"

text \<open>
  \<^verbatim>\<open>validate_folders\<close>: without a \<^verbatim>\<open>folders-common\<close> element it records F2 and returns;
  with one, the rules run in the order of the source (F3, F4, F5, F1, F6, F7, F8, F9, F10,
  F11), each on the result of the one before.
\<close>

definition validate_folders :: "element \<Rightarrow> element list \<Rightarrow> validation_result \<Rightarrow> validation_result" where
  "validate_folders root calculations result =
     (let folders_common = find_desc (str ''folders-common'') root;
          layout = find_desc (str ''layout'') root;
          all_folders = findall_desc (str ''folder'') root
      in case folders_common of
           None \<Rightarrow> error ''F2'' (str ''XML'') (str ''Missing <folders-common> element'') result
         | Some fc \<Rightarrow>
             let folders_in_common = findall_child (str ''folder'') fc;
                 folders = map snd folders_in_common;
                 calc_names = set (map (\<lambda>c. attr c (str ''name'')) calculations)
             in check_F11 folders
                 (check_F10 folders
                   (check_F9 folders
                     (check_F8 folders
                       (check_F7 layout
                         (check_F6 folders calc_names
                           (check_F1 calculations (fields_in_folders folders)
                             (check_F5 folders
                               (check_F4 all_folders folders_in_common
                                 (check_F3 root fc layout
                                   (passed ''F2'' (str ''XML'') (str ''<folders-common> exists'') result)))))))))))"

text \<open>The folders of a \<^verbatim>\<open>folders-common\<close> node: its children with the tag \<^verbatim>\<open>folder\<close>.\<close>

definition folders_of :: "node \<Rightarrow> element list" where
  "folders_of fc = map snd (findall_child (str ''folder'') fc)"

text \<open>
  Two nodes are children of one element, the first before the second: their paths differ
  in the last index only, and the first has the smaller one.
\<close>

definition sibling_before :: "node \<Rightarrow> node \<Rightarrow> bool" where
  "sibling_before a b =
     (fst a \<noteq> [] \<and> fst b \<noteq> [] \<and> butlast (fst a) = butlast (fst b) \<and> last (fst a) < last (fst b))"

text \<open>The rule names F1 to F9.\<close>

definition F1_to_F9 :: "string set" where
  "F1_to_F9 = {''F1'', ''F2'', ''F3'', ''F4'', ''F5'', ''F6'', ''F7'', ''F8'', ''F9''}"

section \<open>The run\<close>

text \<open>
  What a run reads from outside the repository is a parameter of the model:
  \<^item> \<open>read_text path\<close> is \<^verbatim>\<open>open(path, 'r', encoding='utf-8', errors='replace').read()\<close>,
    the text of the file or the message of the exception that \<^verbatim>\<open>open\<close> raises;
  \<^item> \<open>path_exists\<close> is \<^verbatim>\<open>Path(p).exists()\<close>;
  \<^item> \<open>fromstring\<close> is \<^verbatim>\<open>ET.fromstring\<close>: the root element, a \<^verbatim>\<open>ParseError\<close> or another
    exception;
  \<^item> \<open>finditer_single\<close> and \<open>finditer_double\<close> are \<^verbatim>\<open>re.finditer\<close> with the two patterns
    of \<^verbatim>\<open>validate_workbook\<close> that pick the name of a column and the formula of its
    calculation out of the raw text (single-quoted and double-quoted attributes): the
    groups 1 and 2 of the matches, in order.
  The report printed on standard output is not modelled.
\<close>

datatype parsed = Root element | ParseError pystr | OtherError pystr

record env =
  read_text :: "pystr \<Rightarrow> pystr + pystr"
  path_exists :: "pystr \<Rightarrow> bool"
  fromstring :: "pystr \<Rightarrow> parsed"
  finditer_single :: "pystr \<Rightarrow> (pystr \<times> pystr) list"
  finditer_double :: "pystr \<Rightarrow> (pystr \<times> pystr) list"

text \<open>\<^verbatim>\<open>validate_xml\<close>: the root, or \<open>None\<close> with an X1 error.\<close>

definition validate_xml :: "env \<Rightarrow> pystr \<Rightarrow> validation_result \<Rightarrow> element option \<times> validation_result" where
  "validate_xml E twb_path result =
     (case read_text E twb_path of
        Inl e \<Rightarrow> (None, error ''X1'' (str ''XML'') (str ''error reading file: '' @ e) result)
      | Inr content \<Rightarrow>
          (case fromstring E content of
             Root root \<Rightarrow> (Some root, passed ''X1'' (str ''XML'') (str ''valid XML'') result)
           | ParseError e \<Rightarrow> (None, error ''X1'' (str ''XML'') (str ''parse error: '' @ e) result)
           | OtherError e \<Rightarrow> (None, error ''X1'' (str ''XML'') (str ''error reading file: '' @ e) result)))"

text \<open>\<^verbatim>\<open>validate_safety\<close>: S2 when a backup path is given, then S3.\<close>

definition check_S2 :: "env \<Rightarrow> pystr option \<Rightarrow> validation_result \<Rightarrow> validation_result" where
  "check_S2 E backup_path result =
     (case backup_path of
        None \<Rightarrow> result
      | Some b \<Rightarrow>
          if b = [] then result
          else if path_exists E b
          then passed ''S2'' (str ''backup'') (str ''exists at '' @ b) result
          else error ''S2'' (str ''backup'') (str ''not found at '' @ b) result)"

definition check_S3 :: "pystr \<Rightarrow> pystr option \<Rightarrow> validation_result \<Rightarrow> validation_result" where
  "check_S3 twb_path original_path result =
     (if py_in (str ''_cleaned'') twb_path then
        passed ''S3'' (str ''output'') (str ''is _cleaned copy'') result
      else if truthy original_path \<and> Some twb_path = original_path then
        error ''S3'' (str ''output'') (str ''original file was modified instead of _cleaned copy'') result
      else result)"

definition validate_safety :: "env \<Rightarrow> pystr \<Rightarrow> pystr option \<Rightarrow> pystr option \<Rightarrow> validation_result \<Rightarrow> validation_result" where
  "validate_safety E twb_path backup_path original_path result =
     check_S3 twb_path original_path (check_S2 E backup_path result)"

text \<open>
  The index of raw formulas: a dictionary filled from the matches of the single-quoted
  pattern and then of the double-quoted one, a later match replacing an earlier one of the
  same name.
\<close>

definition raw_formulas_of :: "env \<Rightarrow> pystr \<Rightarrow> (pystr \<rightharpoonup> pystr)" where
  "raw_formulas_of E raw_content =
     foldl (\<lambda>m kv. m(fst kv \<mapsto> snd kv)) Map.empty
       (finditer_single E raw_content @ finditer_double E raw_content)"

text \<open>\<^verbatim>\<open>raw_formulas.get(name)\<close>, where the name of a column may be missing.\<close>

definition raw_formula_for :: "(pystr \<rightharpoonup> pystr) \<Rightarrow> pystr option \<Rightarrow> pystr option" where
  "raw_formula_for raw_formulas name = (case name of None \<Rightarrow> None | Some n \<Rightarrow> raw_formulas n)"

text \<open>The calculated fields: the \<^verbatim>\<open>column\<close> elements that have a \<^verbatim>\<open>calculation\<close> child.\<close>

definition calculations_of :: "element \<Rightarrow> element list" where
  "calculations_of root =
     filter (\<lambda>c. find_in (str ''calculation'') c \<noteq> None)
       (map snd (filter (\<lambda>n. tag (snd n) = str ''column'') (iter root)))"

text \<open>The bodies of the two loops of \<^verbatim>\<open>validate_workbook\<close> over the calculated fields.\<close>

definition caption_of_column :: "unicode_db \<Rightarrow> validation_result \<Rightarrow> element \<Rightarrow> validation_result" where
  "caption_of_column U result col =
     validate_caption U (attr col (str ''caption'')) (attr col (str ''name'')) result"

definition comment_of_column ::
  "unicode_db \<Rightarrow> (pystr \<rightharpoonup> pystr) \<Rightarrow> validation_result \<Rightarrow> element \<Rightarrow> validation_result" where
  "comment_of_column U raw_formulas result col =
     (let calc = find_in (str ''calculation'') col;
          calc_class = (case calc of None \<Rightarrow> None | Some c \<Rightarrow> attr c (str ''class''));
          formula = (case calc of None \<Rightarrow> None | Some c \<Rightarrow> attr c (str ''formula''));
          caption = attr col (str ''caption'');
          name = attr col (str ''name'');
          raw_formula = raw_formula_for raw_formulas name
      in validate_comment U formula caption name result raw_formula calc_class)"

text \<open>
  \<^verbatim>\<open>validate_workbook\<close>. The first \<^verbatim>\<open>open\<close> is outside any \<^verbatim>\<open>try\<close>: its exception
  leaves the function (\<open>Inl\<close>). A document that does not parse ends the run with the result
  of \<^verbatim>\<open>validate_xml\<close>.
\<close>

definition validate_workbook ::
  "unicode_db \<Rightarrow> env \<Rightarrow> pystr \<Rightarrow> pystr option \<Rightarrow> pystr option \<Rightarrow> pystr + validation_result" where
  "validate_workbook U E twb_path backup_path original_path =
     (case read_text E twb_path of
        Inl e \<Rightarrow> Inl e
      | Inr raw_content \<Rightarrow>
          let raw_formulas = raw_formulas_of E raw_content;
              (root, result) = validate_xml E twb_path new_result
          in (case root of
                None \<Rightarrow> Inr result
              | Some root \<Rightarrow>
                  let calculations = calculations_of root;
                      result = foldl (caption_of_column U) result calculations;
                      result = foldl (comment_of_column U raw_formulas) result calculations;
                      result = validate_folders root calculations result;
                      result = (if truthy backup_path \<or> truthy original_path
                                then validate_safety E twb_path backup_path original_path result
                                else result)
                  in Inr result))"

text \<open>
  The option loop of the main block: \<^verbatim>\<open>--backup\<close> and \<^verbatim>\<open>--original\<close> take the next
  argument when there is one; anything else is skipped.
\<close>

fun parse_options :: "pystr list \<Rightarrow> pystr option \<times> pystr option \<Rightarrow> pystr option \<times> pystr option" where
  "parse_options [] acc = acc"
| "parse_options [a] acc = acc"
| "parse_options (a # b # rest) (backup_path, original_path) =
     (if a = str ''--backup'' then parse_options rest (Some b, original_path)
      else if a = str ''--original'' then parse_options rest (backup_path, Some b)
      else parse_options (b # rest) (backup_path, original_path))"

text \<open>
  The exit status of the process for \<^verbatim>\<open>sys.argv\<close>: 1 for a missing path, 1 when an
  exception leaves the program, else 1 when the result has errors and 0 when it has none.
\<close>

definition main :: "unicode_db \<Rightarrow> env \<Rightarrow> pystr list \<Rightarrow> int" where
  "main U E argv =
     (if length argv < 2 then 1
      else let twb_path = argv ! 1;
               (backup_path, original_path) = parse_options (drop 2 argv) (None, None)
           in case validate_workbook U E twb_path backup_path original_path of
                Inl e \<Rightarrow> 1
              | Inr result \<Rightarrow> if has_errors result then 1 else 0)"

section \<open>Example data\<close>

text \<open>
  An excerpt of the Unicode database, right at the two code points outside ASCII that an
  example below uses: the upper-case and the title-case mapping of U+0149 (LATIN SMALL
  LETTER N PRECEDED BY APOSTROPHE) are the two code points U+02BC U+004E
  (\<^verbatim>\<open>SpecialCasing.txt\<close>), and U+02BC (MODIFIER LETTER APOSTROPHE) is a letter without
  case.
\<close>

definition ucd_excerpt :: unicode_db where
  "ucd_excerpt =
     \<lparr>to_upper_full = (\<lambda>c. if c = 0x149 then [0x2BC, 0x4E] else [c]),
      to_title_full = (\<lambda>c. if c = 0x149 then [0x2BC, 0x4E] else [c]),
      lower_at = (\<lambda>s i. [s ! i]),
      is_alnum = (\<lambda>c. c = 0x149 \<or> c = 0x2BC),
      is_decimal = (\<lambda>c. False)\<rparr>"

text \<open>
  A workbook with one calculated field, a \<^verbatim>\<open>folders-common\<close> element with one folder
  for each of the given names (the first folder lists the field), and after it a
  \<^verbatim>\<open>layout\<close> element that shows the structure.
\<close>

definition sample_column :: element where
  "sample_column =
     Element (str ''column'')
       [(str ''caption'', str ''Total Sales''), (str ''datatype'', str ''real''),
        (str ''name'', str ''[Calculation_1]''), (str ''role'', str ''measure'')]
       [Element (str ''calculation'')
          [(str ''class'', str ''tableau''),
           (str ''formula'', str ''// Sums the sales of every region'' @ [13, 10] @ str ''SUM([Sales])'')]
          []]"

definition sample_folders :: "pystr list \<Rightarrow> element list" where
  "sample_folders names =
     map (\<lambda>(i, n). Element (str ''folder'') [(str ''name'', n)]
            (if i = 0
             then [Element (str ''folder-item'')
                     [(str ''name'', str ''[Calculation_1]''), (str ''type'', str ''field'')] []]
             else []))
         (enumerate 0 names)"

definition sample_workbook :: "pystr list \<Rightarrow> element" where
  "sample_workbook names =
     Element (str ''workbook'') []
       [Element (str ''datasources'') []
          [Element (str ''datasource'') [(str ''name'', str ''Sample'')]
             [sample_column,
              Element (str ''folders-common'') [] (sample_folders names),
              Element (str ''layout'') [(str ''show-structure'', str ''true'')] []]]]"

definition six_names :: "pystr list" where
  "six_names =
     [0x1F4CA # str '' Metrics'', 0x1F4C5 # str '' Dates'', 0x1F50D # str '' Filters'',
      0x1F3A8 # str '' Display'', 0x1F4C8 # str '' Projections'', 0x1F512 # str '' Security'']"

definition eight_names :: "pystr list" where
  "eight_names = six_names @ [0x1F4B0 # str '' Finance'', 0x1F4DD # str '' Notes'']"

text \<open>
  Folder names with faults: the first name once more, a name that starts with a character
  reference, and a name without a marker.
\<close>

definition messy_names :: "pystr list" where
  "messy_names = eight_names @ [0x1F4CA # str '' Metrics'', str ''&#x1F4C5; Dates'', str ''Plain'']"

text \<open>
  An environment for the examples: one readable file, whose text parses to the given root
  and whose raw text gives the raw formula of the sample column; no backup exists.
\<close>

definition sample_env :: "element \<Rightarrow> env" where
  "sample_env root =
     \<lparr>read_text = (\<lambda>p. if p = str ''book_cleaned.twb'' \<or> p = str ''book.twb''
                        then Inr (str ''<workbook/>'') else Inl (str ''No such file or directory'')),
      path_exists = (\<lambda>p. False),
      fromstring = (\<lambda>s. Root root),
      finditer_single =
        (\<lambda>s. [(str ''[Calculation_1]'', str ''// Sums the sales of every region&#13;&#10;SUM([Sales])'')]),
      finditer_double = (\<lambda>s. [])\<rparr>"

text \<open>An environment whose readable file is not well-formed XML.\<close>

definition broken_env :: env where
  "broken_env =
     \<lparr>read_text = (\<lambda>p. if p = str ''book_cleaned.twb'' then Inr (str ''<workbook>'')
                        else Inl (str ''No such file or directory'')),
      path_exists = (\<lambda>p. False),
      fromstring = (\<lambda>s. ParseError (str ''no element found: line 1, column 10'')),
      finditer_single = (\<lambda>s. []),
      finditer_double = (\<lambda>s. [])\<rparr>"

text \<open>A workbook without a \<^verbatim>\<open>folders-common\<close> element.\<close>

definition bare_workbook :: element where
  "bare_workbook =
     Element (str ''workbook'') []
       [Element (str ''datasources'') []
          [Element (str ''datasource'') [(str ''name'', str ''Sample'')] [sample_column]]]"

text \<open>
  Two columns with the same name, and an index of raw formulas for each: the formula of
  the first has no comment; the formula of the second starts with a comment, and its raw
  text has a line break where the parsed text has a space.
\<close>

definition newline_column :: element where
  "newline_column =
     Element (str ''column'')
       [(str ''caption'', str ''Sales Plus One''), (str ''name'', str ''[Calculation_2]'')]
       [Element (str ''calculation'')
          [(str ''class'', str ''tableau''), (str ''formula'', str ''SUM([Sales]) + 1'')] []]"

definition commented_column :: element where
  "commented_column =
     Element (str ''column'')
       [(str ''caption'', str ''Sales Plus One''), (str ''name'', str ''[Calculation_2]'')]
       [Element (str ''calculation'')
          [(str ''class'', str ''tableau''),
           (str ''formula'', str ''// Adds one to the total of the sales SUM([Sales]) + 1'')] []]"

definition newline_index :: "pystr \<rightharpoonup> pystr" where
  "newline_index = [str ''[Calculation_2]'' \<mapsto> str ''SUM([Sales])'' @ [10] @ str ''+ 1'']"

definition commented_index :: "pystr \<rightharpoonup> pystr" where
  "commented_index =
     [str ''[Calculation_2]'' \<mapsto> str ''// Adds one to the total of the sales'' @ [10] @ str ''SUM([Sales]) + 1'']"

text \<open>
  Two more indices of raw formulas: the raw formula of the sample column, with its line
  break encoded, and a raw formula for the commented column that has an encoded line
  break and, further on, a literal one.
\<close>

definition encoded_index :: "pystr \<rightharpoonup> pystr" where
  "encoded_index =
     [str ''[Calculation_1]'' \<mapsto> str ''// Sums the sales of every region&#13;&#10;SUM([Sales])'']"

definition mixed_index :: "pystr \<rightharpoonup> pystr" where
  "mixed_index =
     [str ''[Calculation_2]'' \<mapsto>
        str ''// Adds one to the total of the sales&#13;&#10;SUM([Sales])'' @ [10] @ str ''+ 1'']"

section \<open>Properties of the result\<close>

lemma errors_error: "errors (error rule f m r) = errors r @ [(rule, f, m)]"
  by (simp add: error_def)

lemma passes_error: "passes (error rule f m r) = passes r"
  by (simp add: error_def)

lemma errors_passed: "errors (passed rule f m r) = errors r"
  by (simp add: passed_def)

lemma passes_passed: "passes (passed rule f m r) = passes r @ [(rule, f, m)]"
  by (simp add: passed_def)

lemmas entry_simps = errors_error passes_error errors_passed passes_passed

lemma of_rule_append: "of_rule k (xs @ ys) = of_rule k xs @ of_rule k ys"
  by (simp add: of_rule_def)

lemma of_rule_single: "of_rule k [(k', f, m)] = (if k' = k then [(k', f, m)] else [])"
  by (simp add: of_rule_def)

section \<open>Comment rules\<close>

text \<open>
  Claim C4, amended. For every field whose calculation class is not one of the two bin
  classes and whose formula is present, not blank after trimming and does not start with
  \<^verbatim>\<open>//\<close>, \<^verbatim>\<open>validate_comment\<close> records exactly one M1 failure and nothing else: no
  entry, pass or failure, of M2, M3, M4 or M5 is recorded for the field.
\<close>

theorem validate_comment_M1_failure:
  assumes "calc_class \<noteq> Some (str ''categorical-bin'')"
    and "calc_class \<noteq> Some (str ''quantitative-bin'')"
    and "py_strip f \<noteq> []"
    and "\<not> startswith (py_strip f) (str ''//'')"
  shows "validate_comment U (Some f) caption name result raw_formula calc_class
           = result\<lparr>errors := errors result @ [(''M1'', fmt (py_or caption name), str ''missing comment'')]\<rparr>"
proof -
  have "f \<noteq> []"
    using assms(3) by (auto simp: py_strip_def strip_chars_def)
  then show ?thesis
    using assms by (simp add: validate_comment_def Let_def error_def)
qed

theorem validate_comment_M1_failure_witness:
  "validate_comment ucd_excerpt (Some (str ''SUM([Sales])'')) (Some (str ''Total Sales''))
      (Some (str ''[Calculation_1]'')) new_result (Some (str ''SUM([Sales])'')) (Some (str ''tableau''))
     = \<lparr>errors = [(''M1'', str ''Total Sales'', str ''missing comment'')], passes = []\<rparr>"
proof -
  have a: "Some (str ''tableau'') \<noteq> Some (str ''categorical-bin'')"
    by code_simp
  have b: "Some (str ''tableau'') \<noteq> Some (str ''quantitative-bin'')"
    by code_simp
  have c: "py_strip (str ''SUM([Sales])'') \<noteq> []"
    by code_simp
  have d: "\<not> startswith (py_strip (str ''SUM([Sales])'')) (str ''//'')"
    by code_simp
  have e: "fmt (py_or (Some (str ''Total Sales'')) (Some (str ''[Calculation_1]''))) = str ''Total Sales''"
    by code_simp
  show ?thesis
    using validate_comment_M1_failure [OF a b c d, of ucd_excerpt "Some (str ''Total Sales'')"
        "Some (str ''[Calculation_1]'')" new_result "Some (str ''SUM([Sales])'')"]
    by (simp add: e new_result_def)
qed

text \<open>
  Claim C4 as stated fails for a field of a bin class: its formula is present, not blank
  and without a comment, and the first branch of \<^verbatim>\<open>validate_comment\<close> records a pass of
  M1, not a failure.
\<close>

theorem validate_comment_bin_counterexample:
  "py_strip (str ''SUM([Sales])'') \<noteq> [] \<and> \<not> startswith (py_strip (str ''SUM([Sales])'')) (str ''//'')
   \<and> errors (validate_comment ucd_excerpt (Some (str ''SUM([Sales])'')) (Some (str ''Sales (bin)''))
         (Some (str ''[Sales (bin)]'')) new_result None (Some (str ''categorical-bin''))) = []"
  by code_simp

lemma of_rule_Nil: "of_rule k [] = []"
  by (simp add: of_rule_def)

lemma of_rule_errors_check_M3:
  "k \<noteq> ''M3'' \<Longrightarrow> of_rule k (errors (check_M3 U fs caption d r)) = of_rule k (errors r)"
  by (simp add: check_M3_def Let_def entry_simps of_rule_append of_rule_single)

lemma of_rule_errors_check_M5:
  "k \<noteq> ''M5'' \<Longrightarrow> of_rule k (errors (check_M5 U raw d r)) = of_rule k (errors r)"
  by (simp add: check_M5_def entry_simps of_rule_append of_rule_single split: option.splits)

lemma errors_check_M4:
  "errors (check_M4 raw_formula d r) =
     errors r @ (case raw_formula of
                   None \<Rightarrow> []
                 | Some raw \<Rightarrow> if py_in [10] raw \<and> \<not> py_in (str ''&#13;'') raw
                               then [(''M4'', d, str ''newline not XML-encoded (use &#13;&#10;)'')] else [])"
  by (auto simp: check_M4_def entry_simps split: option.splits)

lemma of_rule_M4_validate_comment_None:
  "of_rule ''M4'' (errors (validate_comment U formula caption name r None calc_class)) = of_rule ''M4'' (errors r)"
  by (simp add: validate_comment_def Let_def entry_simps of_rule_append of_rule_single
        of_rule_errors_check_M3 of_rule_errors_check_M5 errors_check_M4 split: option.splits)

lemma of_rule_M4_validate_comment_Some:
  assumes "calc_class \<noteq> Some (str ''categorical-bin'')"
    and "calc_class \<noteq> Some (str ''quantitative-bin'')"
    and "startswith (py_strip f) (str ''//'')"
  shows "of_rule ''M4'' (errors (validate_comment U (Some f) caption name r (Some raw) calc_class))
       = of_rule ''M4'' (errors r) @
         (if py_in [10] raw \<and> \<not> py_in (str ''&#13;'') raw
          then [(''M4'', fmt (py_or caption name), str ''newline not XML-encoded (use &#13;&#10;)'')] else [])"
proof -
  have ne: "py_strip f \<noteq> []"
    using assms(3) by (auto simp: startswith_def str_def)
  then have "f \<noteq> []"
    by (auto simp: py_strip_def strip_chars_def)
  with ne show ?thesis
    using assms
    by (simp add: validate_comment_def Let_def entry_simps of_rule_append of_rule_single
        of_rule_errors_check_M3 of_rule_errors_check_M5 errors_check_M4 of_rule_Nil)
qed

text \<open>
  Claim C1, amended. The M4 check of a field reads the raw formula that the index gives for
  the name of the field, and nothing of the parsed formula. When the index has no raw
  formula for the field, no M4 error is recorded, whatever the parsed formula is. When it
  has one, and the field reaches the check (its calculation class is not a bin class and
  its parsed formula, trimmed, starts with \<^verbatim>\<open>//\<close>): a raw text without a literal line
  break gets no M4 error, and a raw text with a literal line break and without any
  \<^verbatim>\<open>&#13;\<close> gets exactly one. Nothing is stated for a raw text that has both a
  literal line break and \<^verbatim>\<open>&#13;\<close>.
\<close>

theorem comment_of_column_M4:
  "(raw_formula_for raw_formulas (attr col (str ''name'')) = None \<longrightarrow>
      of_rule ''M4'' (errors (comment_of_column U raw_formulas result col)) = of_rule ''M4'' (errors result))
   \<and> (find_in (str ''calculation'') col = Some calc
        \<and> attr calc (str ''class'') \<noteq> Some (str ''categorical-bin'')
        \<and> attr calc (str ''class'') \<noteq> Some (str ''quantitative-bin'')
        \<and> attr calc (str ''formula'') = Some f
        \<and> startswith (py_strip f) (str ''//'')
        \<and> raw_formula_for raw_formulas (attr col (str ''name'')) = Some raw \<longrightarrow>
      (\<not> py_in [10] raw \<longrightarrow>
         of_rule ''M4'' (errors (comment_of_column U raw_formulas result col)) = of_rule ''M4'' (errors result))
      \<and> (py_in [10] raw \<and> \<not> py_in (str ''&#13;'') raw \<longrightarrow>
         of_rule ''M4'' (errors (comment_of_column U raw_formulas result col))
           = of_rule ''M4'' (errors result)
             @ [(''M4'', fmt (py_or (attr col (str ''caption'')) (attr col (str ''name''))),
                 str ''newline not XML-encoded (use &#13;&#10;)'')]))"
  by (simp add: comment_of_column_def Let_def of_rule_M4_validate_comment_None
      of_rule_M4_validate_comment_Some)

theorem comment_of_column_M4_witness:
  "of_rule ''M4'' (errors (comment_of_column ucd_excerpt Map.empty new_result commented_column)) = []
   \<and> of_rule ''M4'' (errors (comment_of_column ucd_excerpt encoded_index new_result sample_column)) = []
   \<and> of_rule ''M4'' (errors (comment_of_column ucd_excerpt commented_index new_result commented_column))
       = [(''M4'', str ''Sales Plus One'', str ''newline not XML-encoded (use &#13;&#10;)'')]"
proof -
  let ?f = "str ''// Adds one to the total of the sales SUM([Sales]) + 1''"
  let ?raw = "str ''// Adds one to the total of the sales'' @ [10] @ str ''SUM([Sales]) + 1''"
  let ?calc = "Element (str ''calculation'') [(str ''class'', str ''tableau''), (str ''formula'', ?f)] []"
  let ?f1 = "str ''// Sums the sales of every region'' @ [13, 10] @ str ''SUM([Sales])''"
  let ?raw1 = "str ''// Sums the sales of every region&#13;&#10;SUM([Sales])''"
  let ?calc1 = "Element (str ''calculation'') [(str ''class'', str ''tableau''), (str ''formula'', ?f1)] []"
  have n: "raw_formula_for Map.empty (attr commented_column (str ''name'')) = None"
    by code_simp
  have g: "find_in (str ''calculation'') commented_column = Some ?calc
        \<and> attr ?calc (str ''class'') \<noteq> Some (str ''categorical-bin'')
        \<and> attr ?calc (str ''class'') \<noteq> Some (str ''quantitative-bin'')
        \<and> attr ?calc (str ''formula'') = Some ?f
        \<and> startswith (py_strip ?f) (str ''//'')
        \<and> raw_formula_for commented_index (attr commented_column (str ''name'')) = Some ?raw"
    by code_simp
  have g1: "find_in (str ''calculation'') sample_column = Some ?calc1
        \<and> attr ?calc1 (str ''class'') \<noteq> Some (str ''categorical-bin'')
        \<and> attr ?calc1 (str ''class'') \<noteq> Some (str ''quantitative-bin'')
        \<and> attr ?calc1 (str ''formula'') = Some ?f1
        \<and> startswith (py_strip ?f1) (str ''//'')
        \<and> raw_formula_for encoded_index (attr sample_column (str ''name'')) = Some ?raw1"
    by code_simp
  have r: "py_in [10] ?raw \<and> \<not> py_in (str ''&#13;'') ?raw"
    by code_simp
  have r1: "\<not> py_in [10] ?raw1"
    by code_simp
  have d: "fmt (py_or (attr commented_column (str ''caption'')) (attr commented_column (str ''name'')))
             = str ''Sales Plus One''"
    by code_simp
  have e: "of_rule ''M4'' (errors new_result) = []"
    by code_simp
  have a: "of_rule ''M4'' (errors (comment_of_column ucd_excerpt Map.empty new_result commented_column)) = []"
    using comment_of_column_M4 [where raw_formulas = Map.empty and col = commented_column
          and U = ucd_excerpt and result = new_result] n e
    by simp
  have b: "of_rule ''M4'' (errors (comment_of_column ucd_excerpt encoded_index new_result sample_column)) = []"
    using comment_of_column_M4 [where raw_formulas = encoded_index and col = sample_column
          and U = ucd_excerpt and result = new_result and calc = ?calc1 and f = ?f1 and raw = ?raw1]
      g1 r1 e
    by simp
  have c: "of_rule ''M4'' (errors (comment_of_column ucd_excerpt commented_index new_result commented_column))
       = [(''M4'', str ''Sales Plus One'', str ''newline not XML-encoded (use &#13;&#10;)'')]"
    using comment_of_column_M4 [where raw_formulas = commented_index and col = commented_column
          and U = ucd_excerpt and result = new_result and calc = ?calc and f = ?f and raw = ?raw]
      g r d e
    by simp
  from a b c show ?thesis
    by blast
qed

text \<open>
  Claim C1 as stated fails for a field that does not reach the check: the raw formula of
  the field is in the index, it contains a line break and no \<^verbatim>\<open>&#13;\<close>, and no M4
  error is recorded, because the parsed formula has no comment and \<^verbatim>\<open>validate_comment\<close>
  returns after the M1 failure.
\<close>

theorem comment_of_column_M4_counterexample:
  "raw_formula_for newline_index (attr newline_column (str ''name''))
       = Some (str ''SUM([Sales])'' @ [10] @ str ''+ 1'')
   \<and> py_in [10] (str ''SUM([Sales])'' @ [10] @ str ''+ 1'')
   \<and> \<not> py_in (str ''&#13;'') (str ''SUM([Sales])'' @ [10] @ str ''+ 1'')
   \<and> of_rule ''M4'' (errors (comment_of_column ucd_excerpt newline_index new_result newline_column)) = []"
  by code_simp

text \<open>
  A raw text with both a literal line break and \<^verbatim>\<open>&#13;\<close>, of which the theorem
  says nothing. The source looks for \<^verbatim>\<open>&#13;\<close> anywhere in the text (line 186), not at
  the line break: the first line break of this text is encoded, the second is literal, and
  no M4 error is recorded, although the comments of the source (lines 182 and 185) ask for
  every line break of the raw text to be encoded.
\<close>

lemma mixed_line_breaks_M4:
  "raw_formula_for mixed_index (attr commented_column (str ''name''))
       = Some (str ''// Adds one to the total of the sales&#13;&#10;SUM([Sales])'' @ [10] @ str ''+ 1'')
   \<and> py_in [10] (str ''// Adds one to the total of the sales&#13;&#10;SUM([Sales])'' @ [10] @ str ''+ 1'')
   \<and> py_in (str ''&#13;'') (str ''// Adds one to the total of the sales&#13;&#10;SUM([Sales])'' @ [10] @ str ''+ 1'')
   \<and> of_rule ''M4'' (errors (comment_of_column ucd_excerpt mixed_index new_result commented_column)) = []"
  by code_simp

section \<open>Safety rules\<close>

lemma of_rule_check_S2:
  "k \<noteq> ''S2'' \<Longrightarrow> of_rule k (errors (check_S2 E b r)) = of_rule k (errors r)
     \<and> of_rule k (passes (check_S2 E b r)) = of_rule k (passes r)"
  by (simp add: check_S2_def entry_simps of_rule_append of_rule_single of_rule_Nil split: option.splits)

text \<open>
  Claim C8, amended. The marker that S3 looks for in the path of the tested file is
  \<^verbatim>\<open>_cleaned\<close>, with an underscore. When the path contains it, S3 records a pass and no
  failure. When the path does not contain it and a non-empty original path is supplied
  that equals the tested path, S3 records a failure and no pass.
\<close>

theorem validate_safety_S3:
  "(py_in (str ''_cleaned'') twb_path \<longrightarrow>
      of_rule ''S3'' (passes (validate_safety E twb_path backup_path original_path r))
        = of_rule ''S3'' (passes r) @ [(''S3'', str ''output'', str ''is _cleaned copy'')]
      \<and> of_rule ''S3'' (errors (validate_safety E twb_path backup_path original_path r))
        = of_rule ''S3'' (errors r))
   \<and> (\<not> py_in (str ''_cleaned'') twb_path \<and> original_path = Some twb_path \<and> twb_path \<noteq> [] \<longrightarrow>
      of_rule ''S3'' (errors (validate_safety E twb_path backup_path original_path r))
        = of_rule ''S3'' (errors r)
            @ [(''S3'', str ''output'', str ''original file was modified instead of _cleaned copy'')]
      \<and> of_rule ''S3'' (passes (validate_safety E twb_path backup_path original_path r))
        = of_rule ''S3'' (passes r))"
  by (simp add: validate_safety_def check_S3_def truthy_def entry_simps of_rule_append
      of_rule_single of_rule_check_S2)

theorem validate_safety_S3_witness:
  "of_rule ''S3'' (passes (validate_safety (sample_env bare_workbook) (str ''book_cleaned.twb'') None
        (Some (str ''book.twb'')) new_result)) = [(''S3'', str ''output'', str ''is _cleaned copy'')]
   \<and> of_rule ''S3'' (errors (validate_safety (sample_env bare_workbook) (str ''book.twb'') None
        (Some (str ''book.twb'')) new_result))
       = [(''S3'', str ''output'', str ''original file was modified instead of _cleaned copy'')]"
proof -
  have a: "py_in (str ''_cleaned'') (str ''book_cleaned.twb'')"
    by code_simp
  have b: "\<not> py_in (str ''_cleaned'') (str ''book.twb'') \<and> str ''book.twb'' \<noteq> []"
    by code_simp
  have e: "of_rule ''S3'' (errors new_result) = [] \<and> of_rule ''S3'' (passes new_result) = []"
    by code_simp
  show ?thesis
    using validate_safety_S3 [where twb_path = "str ''book_cleaned.twb''" and E = "sample_env bare_workbook"
          and backup_path = None and original_path = "Some (str ''book.twb'')" and r = new_result]
      validate_safety_S3 [where twb_path = "str ''book.twb''" and E = "sample_env bare_workbook"
          and backup_path = None and original_path = "Some (str ''book.twb'')" and r = new_result]
      a b e
    by simp
qed

text \<open>
  Claim C8 as stated fails for the marker \<^verbatim>\<open>-cleaned\<close>, with a hyphen: the tested path
  contains it and is also given as the original path, and S3 records no pass and a failure.
\<close>

theorem validate_safety_S3_counterexample:
  "py_in (str ''-cleaned'') (str ''book-cleaned.twb'')
   \<and> of_rule ''S3'' (passes (validate_safety (sample_env bare_workbook) (str ''book-cleaned.twb'') None
        (Some (str ''book-cleaned.twb'')) new_result)) = []
   \<and> of_rule ''S3'' (errors (validate_safety (sample_env bare_workbook) (str ''book-cleaned.twb'') None
        (Some (str ''book-cleaned.twb'')) new_result))
       = [(''S3'', str ''output'', str ''original file was modified instead of _cleaned copy'')]"
  by code_simp

section \<open>Caption rules\<close>

text \<open>
  Claim C2 at the caption \<^verbatim>\<open>total sales\<close>: its title-cased form is \<^verbatim>\<open>Total Sales\<close>, the
  two differ in the case of letters that belong to no acronym, and \<^verbatim>\<open>validate_caption\<close>
  records no error at all, so no C1 error. The first test of the C1 block asks that the
  lower-cased caption differs from the lower-cased expected text, which no difference of
  case alone can meet.
\<close>

theorem validate_caption_lower_case_caption:
  "to_title_case ucd_excerpt (str ''total sales'') = str ''Total Sales''
   \<and> str ''total sales'' \<noteq> str ''Total Sales''
   \<and> errors (validate_caption ucd_excerpt (Some (str ''total sales'')) (Some (str ''[Calculation_1]''))
        new_result) = []"
  by code_simp

section \<open>The exit status\<close>

lemma main_no_path: "length argv < 2 \<Longrightarrow> main U E argv = 1"
  by (simp add: main_def)

lemma main_of_result:
  assumes "2 \<le> length argv"
    and "validate_workbook U E (argv ! 1) (fst (parse_options (drop 2 argv) (None, None)))
              (snd (parse_options (drop 2 argv) (None, None))) = Inr result"
  shows "main U E argv = (if errors result = [] then 0 else 1)"
  using assms by (simp add: main_def Let_def case_prod_beta has_errors_def)

lemma validate_workbook_parse_error:
  assumes "read_text E twb_path = Inr content" and "fromstring E content = ParseError e"
  shows "validate_workbook U E twb_path backup_path original_path
           = Inr \<lparr>errors = [(''X1'', str ''XML'', str ''parse error: '' @ e)], passes = []\<rparr>"
  using assms by (simp add: validate_workbook_def validate_xml_def Let_def new_result_def error_def)

lemma validate_workbook_unreadable:
  "read_text E twb_path = Inl e \<Longrightarrow> validate_workbook U E twb_path backup_path original_path = Inl e"
  by (simp add: validate_workbook_def)

lemma validate_xml_unreadable:
  "read_text E twb_path = Inl e \<Longrightarrow>
   validate_xml E twb_path result = (None, error ''X1'' (str ''XML'') (str ''error reading file: '' @ e) result)"
  by (simp add: validate_xml_def)

text \<open>
  The status of a run: 1 without a path argument, 1 when the file of the path cannot be
  read, and otherwise decided by the result. The status is 0 only when there is a result,
  and the result has no failure entry.
\<close>

lemma main_unreadable:
  "2 \<le> length argv \<Longrightarrow> read_text E (argv ! 1) = Inl e \<Longrightarrow> main U E argv = 1"
  by (simp add: main_def Let_def case_prod_beta validate_workbook_unreadable)

lemma main_zero_iff:
  "main U E argv = 0 \<longleftrightarrow>
     2 \<le> length argv
     \<and> (\<exists>result. validate_workbook U E (argv ! 1) (fst (parse_options (drop 2 argv) (None, None)))
                     (snd (parse_options (drop 2 argv) (None, None))) = Inr result
                  \<and> errors result = [])"
  by (auto simp: main_def Let_def case_prod_beta has_errors_def split: sum.splits)

lemma main_zero_or_one: "main U E argv = 0 \<or> main U E argv = 1"
  by (simp add: main_def Let_def case_prod_beta split: sum.splits)

text \<open>
  Three runs: without a path argument, on a workbook that passes every check, and on a
  file that is not well-formed XML.
\<close>

lemma main_sample_runs:
  "main ucd_excerpt (sample_env (sample_workbook six_names)) [str ''validate_cleanup.py''] = 1
   \<and> main ucd_excerpt (sample_env (sample_workbook six_names))
        [str ''validate_cleanup.py'', str ''book_cleaned.twb'', str ''--original'', str ''book.twb''] = 0
   \<and> main ucd_excerpt broken_env [str ''validate_cleanup.py'', str ''book_cleaned.twb''] = 1"
  by code_simp

text \<open>
  Claim C9 fails on a path whose file cannot be read. \<^verbatim>\<open>validate_workbook\<close> opens the file
  itself (line 381) before any check and outside any \<^verbatim>\<open>try\<close>: the exception leaves
  \<^verbatim>\<open>validate_workbook\<close> and \<^verbatim>\<open>main\<close>, so the run ends with status 1 and has recorded no
  failure entry, where the claim gives status 0 to a run without failure entries.
  \<^verbatim>\<open>validate_xml\<close>, which the run would call next, catches the same exception
  (lines 349 to 351) and records the single X1 failure
  \<^verbatim>\<open>error reading file\<close>; that branch is never reached for an unreadable file, as the
  first \<^verbatim>\<open>open\<close> has already failed.
\<close>

theorem main_unreadable_file:
  "read_text (sample_env bare_workbook) (str ''missing.twb'') = Inl (str ''No such file or directory'')
   \<and> validate_workbook ucd_excerpt (sample_env bare_workbook) (str ''missing.twb'') None None
       = Inl (str ''No such file or directory'')
   \<and> main ucd_excerpt (sample_env bare_workbook) [str ''validate_cleanup.py'', str ''missing.twb''] = 1
   \<and> snd (validate_xml (sample_env bare_workbook) (str ''missing.twb'') new_result)
       = \<lparr>errors = [(''X1'', str ''XML'', str ''error reading file: No such file or directory'')],
          passes = []\<rparr>"
  by code_simp

section \<open>The text normalizer is idempotent on ASCII\<close>

lemma str_underscore: "str ''_'' = [95]" and str_space: "str '' '' = [32]"
  by (simp_all add: str_def)

lemma py_replace_char: "py_replace [a] [b] s = map (\<lambda>c. if c = a then b else c) s"
  by (induction s) (simp_all add: startswith_def)

lemma py_replace_absent: "a \<notin> set s \<Longrightarrow> py_replace [a] [b] s = s"
  by (induction s) (simp_all add: startswith_def)

lemma concat_singletons: "\<forall>x \<in> set xs. f x = [g x] \<Longrightarrow> concat (map f xs) = map g xs"
  by (induction xs) simp_all


lemma split_words_word:
  "\<forall>c \<in> set w. \<not> isspace c \<Longrightarrow> \<forall>v \<in> set (split_words w s). is_word v \<and> set v \<subseteq> set w \<union> set s"
proof (induction s arbitrary: w)
  case Nil
  then show ?case by (simp add: is_word_def)
next
  case (Cons c cs)
  show ?case
  proof (cases "isspace c")
    case True
    have "\<forall>v\<in>set (split_words [] cs). is_word v \<and> set v \<subseteq> set [] \<union> set cs"
      by (rule Cons.IH) simp
    with True Cons.prems show ?thesis
      by (auto simp: is_word_def)
  next
    case False
    with Cons.prems have "\<forall>c' \<in> set (w @ [c]). \<not> isspace c'"
      by auto
    from Cons.IH [OF this] False show ?thesis
      by auto
  qed
qed

lemma split_words_prefix:
  "\<forall>c \<in> set v. \<not> isspace c \<Longrightarrow> split_words w (v @ rest) = split_words (w @ v) rest"
  by (induction v arbitrary: w) simp_all

lemma py_split_join:
  "\<forall>w \<in> set ws. is_word w \<Longrightarrow> py_split (py_join [32] ws) = ws"
proof (induction "[32] :: pystr" ws rule: py_join.induct)
  case 1
  then show ?case by (simp add: py_split_def)
next
  case (2 w)
  then have "split_words [] (w @ []) = split_words ([] @ w) []"
    by (intro split_words_prefix) (simp add: is_word_def)
  with 2 show ?case
    by (simp add: py_split_def is_word_def)
next
  case (3 w v vs)
  then have w: "is_word w" and IH: "py_split (py_join [32] (v # vs)) = v # vs"
    by simp_all
  have "split_words [] (w @ (32 # py_join [32] (v # vs))) = split_words ([] @ w) (32 # py_join [32] (v # vs))"
    using w by (intro split_words_prefix) (simp add: is_word_def)
  also have "\<dots> = w # split_words [] (py_join [32] (v # vs))"
    using w by (simp add: is_word_def isspace_def)
  finally show ?case
    using IH by (simp add: py_split_def)
qed

lemma py_upper_ascii: "ascii s \<Longrightarrow> py_upper U s = map ascii_upper s"
  by (induction s) (simp_all add: py_upper_def upper_cp_def ascii_def)

lemma lower_tail_ascii:
  assumes "ascii s"
  shows "concat (map (lower_cp U s) [1..<length s]) = map ascii_lower (tl s)"
proof -
  have "concat (map (lower_cp U s) [1..<length s]) = map (\<lambda>i. ascii_lower (s ! i)) [1..<length s]"
    using assms by (intro concat_singletons) (auto simp: lower_cp_def ascii_def)
  also have "\<dots> = map ascii_lower (map (\<lambda>i. s ! i) [1..<length s])"
    by simp
  also have "map (\<lambda>i. s ! i) [1..<length s] = tl s"
  proof (cases s)
    case Nil
    then show ?thesis by simp
  next
    case (Cons c cs)
    have "map (\<lambda>i. (c # cs) ! i) (map Suc [0..<length cs]) = map (\<lambda>i. cs ! i) [0..<length cs]"
      by simp
    also have "\<dots> = cs"
      by (rule map_nth)
    finally show ?thesis
      using Cons by (simp add: map_Suc_upt)
  qed
  finally show ?thesis .
qed

lemma py_capitalize_ascii:
  "ascii s \<Longrightarrow> py_capitalize U s = (case s of [] \<Rightarrow> [] | c # cs \<Rightarrow> ascii_upper c # map ascii_lower cs)"
  using lower_tail_ascii [of s U]
  by (cases s) (simp_all add: py_capitalize_def title_cp_def ascii_def)


lemma ascii_case_simps:
  "ascii_upper (ascii_upper c) = ascii_upper c"
  "ascii_upper (ascii_lower c) = ascii_upper c"
  "ascii_lower (ascii_lower c) = ascii_lower c"
  "isspace (ascii_upper c) = isspace c"
  "isspace (ascii_lower c) = isspace c"
  "(ascii_upper c = 95) = (c = 95)"
  "(ascii_lower c = 95) = (c = 95)"
  "(95 = ascii_upper c) = (c = 95)"
  "(95 = ascii_lower c) = (c = 95)"
  "(ascii_upper c < 128) = (c < 128)"
  "(ascii_lower c < 128) = (c < 128)"
  by (auto simp: ascii_upper_def ascii_lower_def isspace_def)

lemma title_word_cases:
  assumes "ascii w"
  shows "title_word U w = map ascii_upper w
         \<or> title_word U w = (case w of [] \<Rightarrow> [] | c # cs \<Rightarrow> ascii_upper c # map ascii_lower cs)"
  using assms by (simp add: title_word_def Let_def py_upper_ascii py_capitalize_ascii)

lemma title_word_ascii: "ascii w \<Longrightarrow> ascii (title_word U w)"
  using title_word_cases [of w U]
  by (cases w) (auto simp: ascii_def ascii_case_simps)

lemma title_word_is_word: "ascii w \<Longrightarrow> is_word w \<Longrightarrow> is_word (title_word U w)"
  using title_word_cases [of w U]
  by (cases w) (auto simp: is_word_def ascii_case_simps)

lemma title_word_underscore: "ascii w \<Longrightarrow> 95 \<notin> set w \<Longrightarrow> 95 \<notin> set (title_word U w)"
  using title_word_cases [of w U]
  by (cases w) (auto simp: ascii_case_simps image_iff)

lemma title_word_idem:
  assumes "ascii w"
  shows "title_word U (title_word U w) = title_word U w"
proof (cases "map ascii_upper w \<in> set ACRONYMS")
  case True
  then have t: "title_word U w = map ascii_upper w"
    using assms by (simp add: title_word_def py_upper_ascii)
  have "ascii (map ascii_upper w)"
    using assms by (simp add: ascii_def ascii_case_simps)
  then have "py_upper U (map ascii_upper w) = map ascii_upper w"
    by (simp add: py_upper_ascii ascii_case_simps)
  with True t show ?thesis
    by (simp add: title_word_def)
next
  case False
  let ?cap = "case w of [] \<Rightarrow> [] | c # cs \<Rightarrow> ascii_upper c # map ascii_lower cs"
  have t: "title_word U w = ?cap"
    using assms False by (simp add: title_word_def py_upper_ascii py_capitalize_ascii)
  have a: "ascii ?cap"
    using assms by (cases w) (auto simp: ascii_def ascii_case_simps)
  have u: "py_upper U ?cap = map ascii_upper w"
    using a by (cases w) (simp_all add: py_upper_ascii ascii_case_simps)
  have c: "py_capitalize U ?cap = ?cap"
    using a by (cases w) (simp_all add: py_capitalize_ascii ascii_case_simps)
  from False t u c show ?thesis
    by (simp add: title_word_def)
qed

lemma set_py_join: "set (py_join sep ws) \<subseteq> set sep \<union> \<Union> (set ` set ws)"
  by (induction sep ws rule: py_join.induct) auto

text \<open>
  Claim C6, amended. On a text of ASCII code points \<^verbatim>\<open>to_title_case\<close> is idempotent,
  whatever the Unicode database of the runtime is.
\<close>

theorem to_title_case_idempotent_ascii:
  assumes "ascii x"
  shows "to_title_case U (to_title_case U x) = to_title_case U x"
proof -
  let ?s = "py_replace [95] [32] x"
  let ?ws = "py_split ?s"
  let ?gs = "map (title_word U) ?ws"
  have s: "ascii ?s" "95 \<notin> set ?s"
    using assms by (auto simp: py_replace_char ascii_def)
  have ws: "\<forall>w \<in> set ?ws. is_word w \<and> set w \<subseteq> set ?s"
    using split_words_word [of "[]" ?s] by (simp add: py_split_def)
  then have ws': "\<forall>w \<in> set ?ws. is_word w \<and> ascii w \<and> 95 \<notin> set w"
    using s by (auto simp: ascii_def)
  then have gs: "\<forall>g \<in> set ?gs. is_word g \<and> 95 \<notin> set g"
    by (auto simp: title_word_is_word title_word_underscore)
  have t: "to_title_case U x = py_join [32] ?gs"
    by (simp add: to_title_case_def str_underscore str_space)
  have "95 \<notin> set (py_join [32] ?gs)"
    using gs set_py_join [of "[32]" ?gs] by auto
  then have r: "py_replace [95] [32] (py_join [32] ?gs) = py_join [32] ?gs"
    by (rule py_replace_absent)
  have p: "py_split (py_join [32] ?gs) = ?gs"
    using gs by (intro py_split_join) simp
  have m: "map (title_word U) ?gs = ?gs"
    unfolding map_map using ws' by (intro map_cong [OF refl]) (simp add: title_word_idem)
  have "to_title_case U (py_join [32] ?gs)
          = py_join [32] (map (title_word U) (py_split (py_replace [95] [32] (py_join [32] ?gs))))"
    by (simp add: to_title_case_def str_underscore str_space)
  also have "\<dots> = py_join [32] (map (title_word U) ?gs)"
    by (simp only: r p)
  also have "\<dots> = py_join [32] ?gs"
    by (simp only: m)
  finally show ?thesis
    by (simp only: t)
qed

theorem to_title_case_idempotent_ascii_witness:
  "ascii (str ''total_sales  ytd per Region'')
   \<and> to_title_case ucd_excerpt (str ''total_sales  ytd per Region'') = str ''Total Sales YTD Per Region''
   \<and> to_title_case ucd_excerpt (str ''Total Sales YTD Per Region'') = str ''Total Sales YTD Per Region''"
proof -
  have a: "ascii (str ''total_sales  ytd per Region'')"
    by code_simp
  have b: "to_title_case ucd_excerpt (str ''total_sales  ytd per Region'') = str ''Total Sales YTD Per Region''"
    by code_simp
  from a b to_title_case_idempotent_ascii [OF a, of ucd_excerpt] show ?thesis
    by simp
qed

text \<open>
  Claim C6 as stated fails outside ASCII. The text of the one code point U+0149 becomes
  U+02BC U+004E (an apostrophe letter and \<^verbatim>\<open>N\<close>), and that text becomes U+02BC U+006E:
  \<^verbatim>\<open>capitalize\<close> leaves the apostrophe letter, which has no case, and lowers the
  \<^verbatim>\<open>N\<close> behind it.
\<close>

theorem to_title_case_twice_counterexample:
  "to_title_case ucd_excerpt [0x149] = [0x2BC, 0x4E]
   \<and> to_title_case ucd_excerpt (to_title_case ucd_excerpt [0x149]) = [0x2BC, 0x6E]
   \<and> to_title_case ucd_excerpt (to_title_case ucd_excerpt [0x149]) \<noteq> to_title_case ucd_excerpt [0x149]"
  by code_simp

section \<open>Folder rules\<close>

lemma new_result_simps: "errors new_result = []" "passes new_result = []"
  by (simp_all add: new_result_def)

lemma foldl_errors:
  assumes "\<And>r x. errors (step r x) = errors r @ errors (step new_result x)"
  shows "errors (foldl step r xs) = errors r @ concat (map (\<lambda>x. errors (step new_result x)) xs)"
proof (induction xs arbitrary: r)
  case Nil
  then show ?case by simp
next
  case (Cons x xs)
  show ?case
    using Cons.IH [of "step r x"] assms [of r x] by simp
qed

lemma foldl_passes:
  assumes "\<And>r x. passes (step r x) = passes r @ passes (step new_result x)"
  shows "passes (foldl step r xs) = passes r @ concat (map (\<lambda>x. passes (step new_result x)) xs)"
proof (induction xs arbitrary: r)
  case Nil
  then show ?case by simp
next
  case (Cons x xs)
  show ?case
    using Cons.IH [of "step r x"] assms [of r x] by simp
qed

lemma foldl_errors_new:
  assumes "\<And>r x. errors (step r x) = errors r @ errors (step new_result x)"
  shows "errors (foldl step r xs) = errors r @ errors (foldl step new_result xs)"
  using foldl_errors [of step r xs, OF assms] foldl_errors [of step new_result xs, OF assms]
  by (simp add: new_result_simps)

lemma foldl_passes_same:
  assumes "\<And>r x. passes (step r x) = passes r"
  shows "passes (foldl step r xs) = passes r"
  by (induction xs arbitrary: r) (simp_all add: assms)

lemma errors_check_F3:
  "errors (check_F3 root fc layout r) = errors r @ errors (check_F3 root fc layout new_result)"
  by (simp add: check_F3_def Let_def entry_simps new_result_simps split: option.splits)

lemma passes_check_F3:
  "passes (check_F3 root fc layout r) = passes r @ passes (check_F3 root fc layout new_result)"
  by (simp add: check_F3_def Let_def entry_simps new_result_simps split: option.splits)

lemma errors_check_F4:
  "errors (check_F4 all_folders inside r) = errors r @ errors (check_F4 all_folders inside new_result)"
  by (simp add: check_F4_def Let_def entry_simps new_result_simps)

lemma passes_check_F4:
  "passes (check_F4 all_folders inside r) = passes r @ passes (check_F4 all_folders inside new_result)"
  by (simp add: check_F4_def Let_def entry_simps new_result_simps)

lemma errors_check_F5:
  "errors (check_F5 folders r) = errors r @ errors (check_F5 folders new_result)"
  unfolding check_F5_def by (rule foldl_errors_new) (simp add: entry_simps new_result_simps)

lemma passes_check_F5: "passes (check_F5 folders r) = passes r"
  unfolding check_F5_def by (rule foldl_passes_same) (simp add: entry_simps)

lemma errors_check_F1:
  "errors (check_F1 calculations in_folders r) = errors r @ errors (check_F1 calculations in_folders new_result)"
  unfolding check_F1_def
  by (rule foldl_errors_new) (simp add: Let_def entry_simps new_result_simps split: option.splits)

lemma passes_check_F1: "passes (check_F1 calculations in_folders r) = passes r"
  unfolding check_F1_def
  by (rule foldl_passes_same) (simp add: Let_def entry_simps split: option.splits)

lemma errors_check_F6:
  "errors (check_F6 folders calc_names r) = errors r @ errors (check_F6 folders calc_names new_result)"
  unfolding check_F6_def
  by (rule foldl_errors_new) (simp add: Let_def entry_simps new_result_simps)

lemma passes_check_F6: "passes (check_F6 folders calc_names r) = passes r"
  unfolding check_F6_def
  by (rule foldl_passes_same) (simp add: Let_def entry_simps)

lemma errors_check_F7:
  "errors (check_F7 layout r) = errors r @ errors (check_F7 layout new_result)"
  by (simp add: check_F7_def entry_simps new_result_simps split: option.splits)

lemma passes_check_F7:
  "passes (check_F7 layout r) = passes r @ passes (check_F7 layout new_result)"
  by (simp add: check_F7_def entry_simps new_result_simps split: option.splits)

lemma errors_check_F8:
  "errors (check_F8 folders r) = errors r @ errors (check_F8 folders new_result)"
  unfolding check_F8_def
  by (rule foldl_errors_new) (simp add: Let_def entry_simps new_result_simps)

lemma passes_check_F8: "passes (check_F8 folders r) = passes r"
  unfolding check_F8_def
  by (rule foldl_passes_same) (simp add: Let_def entry_simps)

lemma errors_check_F9:
  "errors (check_F9 folders r) = errors r @ errors (check_F9 folders new_result)"
  by (simp add: check_F9_def entry_simps new_result_simps)

lemma passes_check_F9:
  "passes (check_F9 folders r) = passes r @ passes (check_F9 folders new_result)"
  by (simp add: check_F9_def entry_simps new_result_simps)

lemma errors_check_F10:
  "errors (check_F10 folders r) = errors r @ errors (check_F10 folders new_result)"
  unfolding check_F10_def
  by (rule foldl_errors_new) (simp add: Let_def entry_simps new_result_simps)

lemma passes_check_F10: "passes (check_F10 folders r) = passes r"
  unfolding check_F10_def
  by (rule foldl_passes_same) (simp add: Let_def entry_simps)

text \<open>The reports of one walk of F11: each value that was seen before, in order.\<close>

lemma errors_report_duplicates:
  "errors (report_duplicates message seen xs r)
     = errors r @ errors (report_duplicates message seen xs new_result)"
proof (induction xs arbitrary: seen r)
  case Nil
  then show ?case by (simp add: new_result_simps)
next
  case (Cons x xs)
  show ?case
    using Cons.IH [of "insert x seen" "error ''F11'' x message r"]
      Cons.IH [of "insert x seen" "error ''F11'' x message new_result"]
      Cons.IH [of "insert x seen" r]
    by (simp add: entry_simps new_result_simps)
qed

lemma passes_report_duplicates: "passes (report_duplicates message seen xs r) = passes r"
  by (induction xs arbitrary: seen r) (simp_all add: entry_simps)

lemma errors_check_F11:
  "errors (check_F11 folders r) = errors r @ errors (check_F11 folders new_result)"
  using errors_report_duplicates [of "str ''duplicate emoji used in multiple folders''" "{}" "folder_emojis folders"
      "report_duplicates (str ''duplicate folder name'') {} (folder_names folders) r"]
    errors_report_duplicates [of "str ''duplicate emoji used in multiple folders''" "{}" "folder_emojis folders"
      "report_duplicates (str ''duplicate folder name'') {} (folder_names folders) new_result"]
    errors_report_duplicates [of "str ''duplicate folder name''" "{}" "folder_names folders" r]
  by (simp add: check_F11_def)

lemma passes_check_F11: "passes (check_F11 folders r) = passes r"
  by (simp add: check_F11_def passes_report_duplicates)

lemma foldl_errors_rule:
  assumes "\<And>r x. errors (step r x) = errors r @ errors (step new_result x)"
    and "\<And>x e. e \<in> set (errors (step new_result x)) \<Longrightarrow> fst e = k"
    and "e \<in> set (errors (foldl step new_result xs))"
  shows "fst e = k"
proof -
  have "e \<in> set (concat (map (\<lambda>x. errors (step new_result x)) xs))"
    using assms(3) foldl_errors [of step new_result xs, OF assms(1)] by (simp add: new_result_simps)
  then obtain x where "e \<in> set (errors (step new_result x))"
    by auto
  then show ?thesis
    by (rule assms(2))
qed

lemma rule_check_F3: "e \<in> set (errors (check_F3 root fc layout new_result)) \<Longrightarrow> fst e = ''F3''"
  by (auto simp: check_F3_def Let_def entry_simps new_result_simps split: option.splits if_splits)

lemma rule_check_F4: "e \<in> set (errors (check_F4 all_folders inside new_result)) \<Longrightarrow> fst e = ''F4''"
  by (auto simp: check_F4_def Let_def entry_simps new_result_simps split: if_splits)

lemma rule_check_F5: "e \<in> set (errors (check_F5 folders new_result)) \<Longrightarrow> fst e = ''F5''"
  unfolding check_F5_def
  by (erule foldl_errors_rule [rotated 2]) (auto simp: entry_simps new_result_simps split: if_splits)

lemma rule_check_F1: "e \<in> set (errors (check_F1 calculations in_folders new_result)) \<Longrightarrow> fst e = ''F1''"
  unfolding check_F1_def
  by (erule foldl_errors_rule [rotated 2])
    (auto simp: Let_def entry_simps new_result_simps split: if_splits option.splits)

lemma rule_check_F6: "e \<in> set (errors (check_F6 folders calc_names new_result)) \<Longrightarrow> fst e = ''F6''"
  unfolding check_F6_def
  by (erule foldl_errors_rule [rotated 2]) (auto simp: Let_def entry_simps new_result_simps split: if_splits)

lemma rule_check_F7: "e \<in> set (errors (check_F7 layout new_result)) \<Longrightarrow> fst e = ''F7''"
  by (auto simp: check_F7_def entry_simps new_result_simps split: option.splits if_splits)

lemma rule_check_F8: "e \<in> set (errors (check_F8 folders new_result)) \<Longrightarrow> fst e = ''F8''"
  unfolding check_F8_def
  by (erule foldl_errors_rule [rotated 2]) (auto simp: Let_def entry_simps new_result_simps split: if_splits)

lemma rule_check_F9: "e \<in> set (errors (check_F9 folders new_result)) \<Longrightarrow> fst e = ''F9''"
  by (auto simp: check_F9_def entry_simps new_result_simps split: if_splits)

lemma rule_check_F10: "e \<in> set (errors (check_F10 folders new_result)) \<Longrightarrow> fst e = ''F10''"
  unfolding check_F10_def
  by (erule foldl_errors_rule [rotated 2]) (auto simp: Let_def entry_simps new_result_simps split: if_splits)

lemma rule_report_duplicates:
  "e \<in> set (errors (report_duplicates message seen xs r)) \<Longrightarrow> e \<in> set (errors r) \<or> fst e = ''F11''"
  by (induction xs arbitrary: seen r) (fastforce simp: entry_simps split: if_splits)+

lemma rule_check_F11: "e \<in> set (errors (check_F11 folders new_result)) \<Longrightarrow> fst e = ''F11''"
  unfolding check_F11_def
  by (auto dest!: rule_report_duplicates simp: new_result_simps)

lemma errors_validate_folders:
  assumes "find_desc (str ''folders-common'') root = Some fc"
  shows "errors (validate_folders root calculations r) =
     errors r
     @ errors (check_F3 root fc (find_desc (str ''layout'') root) new_result)
     @ errors (check_F4 (findall_desc (str ''folder'') root) (findall_child (str ''folder'') fc) new_result)
     @ errors (check_F5 (folders_of fc) new_result)
     @ errors (check_F1 calculations (fields_in_folders (folders_of fc)) new_result)
     @ errors (check_F6 (folders_of fc) (set (map (\<lambda>c. attr c (str ''name'')) calculations)) new_result)
     @ errors (check_F7 (find_desc (str ''layout'') root) new_result)
     @ errors (check_F8 (folders_of fc) new_result)
     @ errors (check_F9 (folders_of fc) new_result)
     @ errors (check_F10 (folders_of fc) new_result)
     @ errors (check_F11 (folders_of fc) new_result)"
  unfolding validate_folders_def Let_def assms option.case folders_of_def [symmetric]
  apply (subst errors_check_F11)
  apply (subst errors_check_F10)
  apply (subst errors_check_F9)
  apply (subst errors_check_F8)
  apply (subst errors_check_F7)
  apply (subst errors_check_F6)
  apply (subst errors_check_F1)
  apply (subst errors_check_F5)
  apply (subst errors_check_F4)
  apply (subst errors_check_F3)
  apply (simp add: entry_simps)
  done

lemma passes_validate_folders:
  assumes "find_desc (str ''folders-common'') root = Some fc"
  shows "passes (validate_folders root calculations r) =
     passes r @ [(''F2'', str ''XML'', str ''<folders-common> exists'')]
     @ passes (check_F3 root fc (find_desc (str ''layout'') root) new_result)
     @ passes (check_F4 (findall_desc (str ''folder'') root) (findall_child (str ''folder'') fc) new_result)
     @ passes (check_F7 (find_desc (str ''layout'') root) new_result)
     @ passes (check_F9 (folders_of fc) new_result)"
  unfolding validate_folders_def Let_def assms option.case folders_of_def [symmetric]
  apply (simp only: passes_check_F11 passes_check_F10)
  apply (subst passes_check_F9)
  apply (simp only: passes_check_F8)
  apply (subst passes_check_F7)
  apply (simp only: passes_check_F6 passes_check_F1 passes_check_F5)
  apply (subst passes_check_F4)
  apply (subst passes_check_F3)
  apply (simp add: entry_simps)
  done

text \<open>
  Claim C5. Without a \<^verbatim>\<open>folders-common\<close> element \<^verbatim>\<open>validate_folders\<close> records exactly
  one F2 failure and nothing else: no entry of F3 to F11, pass or failure. With the
  element, every one of the rules F3 to F11 is evaluated, whatever the others find: the
  failures of the run are the failures that each rule records by itself on a fresh result,
  one after the other, and so are the passes.
\<close>

theorem validate_folders_F2_guard:
  "(find_desc (str ''folders-common'') root = None \<longrightarrow>
      validate_folders root calculations r
        = r\<lparr>errors := errors r @ [(''F2'', str ''XML'', str ''Missing <folders-common> element'')]\<rparr>)
   \<and> (find_desc (str ''folders-common'') root = Some fc \<longrightarrow>
      errors (validate_folders root calculations r) =
        errors r
        @ errors (check_F3 root fc (find_desc (str ''layout'') root) new_result)
        @ errors (check_F4 (findall_desc (str ''folder'') root) (findall_child (str ''folder'') fc) new_result)
        @ errors (check_F5 (folders_of fc) new_result)
        @ errors (check_F1 calculations (fields_in_folders (folders_of fc)) new_result)
        @ errors (check_F6 (folders_of fc) (set (map (\<lambda>c. attr c (str ''name'')) calculations)) new_result)
        @ errors (check_F7 (find_desc (str ''layout'') root) new_result)
        @ errors (check_F8 (folders_of fc) new_result)
        @ errors (check_F9 (folders_of fc) new_result)
        @ errors (check_F10 (folders_of fc) new_result)
        @ errors (check_F11 (folders_of fc) new_result)
      \<and> passes (validate_folders root calculations r) =
        passes r @ [(''F2'', str ''XML'', str ''<folders-common> exists'')]
        @ passes (check_F3 root fc (find_desc (str ''layout'') root) new_result)
        @ passes (check_F4 (findall_desc (str ''folder'') root) (findall_child (str ''folder'') fc) new_result)
        @ passes (check_F7 (find_desc (str ''layout'') root) new_result)
        @ passes (check_F9 (folders_of fc) new_result))"
proof (intro conjI impI)
  assume "find_desc (str ''folders-common'') root = None"
  then show "validate_folders root calculations r
        = r\<lparr>errors := errors r @ [(''F2'', str ''XML'', str ''Missing <folders-common> element'')]\<rparr>"
    by (simp add: validate_folders_def error_def)
next
  assume "find_desc (str ''folders-common'') root = Some fc"
  then show "errors (validate_folders root calculations r) =
        errors r
        @ errors (check_F3 root fc (find_desc (str ''layout'') root) new_result)
        @ errors (check_F4 (findall_desc (str ''folder'') root) (findall_child (str ''folder'') fc) new_result)
        @ errors (check_F5 (folders_of fc) new_result)
        @ errors (check_F1 calculations (fields_in_folders (folders_of fc)) new_result)
        @ errors (check_F6 (folders_of fc) (set (map (\<lambda>c. attr c (str ''name'')) calculations)) new_result)
        @ errors (check_F7 (find_desc (str ''layout'') root) new_result)
        @ errors (check_F8 (folders_of fc) new_result)
        @ errors (check_F9 (folders_of fc) new_result)
        @ errors (check_F10 (folders_of fc) new_result)
        @ errors (check_F11 (folders_of fc) new_result)"
    by (rule errors_validate_folders)
next
  assume "find_desc (str ''folders-common'') root = Some fc"
  then show "passes (validate_folders root calculations r) =
        passes r @ [(''F2'', str ''XML'', str ''<folders-common> exists'')]
        @ passes (check_F3 root fc (find_desc (str ''layout'') root) new_result)
        @ passes (check_F4 (findall_desc (str ''folder'') root) (findall_child (str ''folder'') fc) new_result)
        @ passes (check_F7 (find_desc (str ''layout'') root) new_result)
        @ passes (check_F9 (folders_of fc) new_result)"
    by (rule passes_validate_folders)
qed

theorem validate_folders_F2_guard_witness:
  "validate_folders bare_workbook (calculations_of bare_workbook) new_result
     = \<lparr>errors = [(''F2'', str ''XML'', str ''Missing <folders-common> element'')], passes = []\<rparr>
   \<and> map fst (errors (validate_folders (sample_workbook messy_names)
                        (calculations_of (sample_workbook messy_names)) new_result))
       = [''F8'', ''F9'', ''F10'', ''F11'', ''F11'']
   \<and> map fst (passes (validate_folders (sample_workbook messy_names)
                        (calculations_of (sample_workbook messy_names)) new_result))
       = [''F2'', ''F3'', ''F4'', ''F7'']"
proof -
  let ?root = "sample_workbook messy_names"
  let ?calcs = "calculations_of ?root"
  let ?fc = "the (find_desc (str ''folders-common'') ?root)"
  have n: "find_desc (str ''folders-common'') bare_workbook = None"
    by code_simp
  have "find_desc (str ''folders-common'') ?root \<noteq> None"
    by code_simp
  then have f: "find_desc (str ''folders-common'') ?root = Some ?fc"
    by simp
  have e: "map fst (errors new_result
        @ errors (check_F3 ?root ?fc (find_desc (str ''layout'') ?root) new_result)
        @ errors (check_F4 (findall_desc (str ''folder'') ?root) (findall_child (str ''folder'') ?fc) new_result)
        @ errors (check_F5 (folders_of ?fc) new_result)
        @ errors (check_F1 ?calcs (fields_in_folders (folders_of ?fc)) new_result)
        @ errors (check_F6 (folders_of ?fc) (set (map (\<lambda>c. attr c (str ''name'')) ?calcs)) new_result)
        @ errors (check_F7 (find_desc (str ''layout'') ?root) new_result)
        @ errors (check_F8 (folders_of ?fc) new_result)
        @ errors (check_F9 (folders_of ?fc) new_result)
        @ errors (check_F10 (folders_of ?fc) new_result)
        @ errors (check_F11 (folders_of ?fc) new_result)) = [''F8'', ''F9'', ''F10'', ''F11'', ''F11'']"
    by code_simp
  have p: "map fst (passes new_result @ [(''F2'', str ''XML'', str ''<folders-common> exists'')]
        @ passes (check_F3 ?root ?fc (find_desc (str ''layout'') ?root) new_result)
        @ passes (check_F4 (findall_desc (str ''folder'') ?root) (findall_child (str ''folder'') ?fc) new_result)
        @ passes (check_F7 (find_desc (str ''layout'') ?root) new_result)
        @ passes (check_F9 (folders_of ?fc) new_result)) = [''F2'', ''F3'', ''F4'', ''F7'']"
    by code_simp
  have a: "validate_folders bare_workbook (calculations_of bare_workbook) new_result
     = \<lparr>errors = [(''F2'', str ''XML'', str ''Missing <folders-common> element'')], passes = []\<rparr>"
    using validate_folders_F2_guard [where root = bare_workbook and calculations = "calculations_of bare_workbook"
        and r = new_result] n
    by (simp add: new_result_def)
  have b: "errors (validate_folders ?root ?calcs new_result) = errors new_result
        @ errors (check_F3 ?root ?fc (find_desc (str ''layout'') ?root) new_result)
        @ errors (check_F4 (findall_desc (str ''folder'') ?root) (findall_child (str ''folder'') ?fc) new_result)
        @ errors (check_F5 (folders_of ?fc) new_result)
        @ errors (check_F1 ?calcs (fields_in_folders (folders_of ?fc)) new_result)
        @ errors (check_F6 (folders_of ?fc) (set (map (\<lambda>c. attr c (str ''name'')) ?calcs)) new_result)
        @ errors (check_F7 (find_desc (str ''layout'') ?root) new_result)
        @ errors (check_F8 (folders_of ?fc) new_result)
        @ errors (check_F9 (folders_of ?fc) new_result)
        @ errors (check_F10 (folders_of ?fc) new_result)
        @ errors (check_F11 (folders_of ?fc) new_result)"
    and c: "passes (validate_folders ?root ?calcs new_result) =
        passes new_result @ [(''F2'', str ''XML'', str ''<folders-common> exists'')]
        @ passes (check_F3 ?root ?fc (find_desc (str ''layout'') ?root) new_result)
        @ passes (check_F4 (findall_desc (str ''folder'') ?root) (findall_child (str ''folder'') ?fc) new_result)
        @ passes (check_F7 (find_desc (str ''layout'') ?root) new_result)
        @ passes (check_F9 (folders_of ?fc) new_result)"
    using validate_folders_F2_guard [where root = ?root and calculations = ?calcs and r = new_result and fc = ?fc] f
    by blast+
  from a e p show ?thesis
    by (simp only: b c simp_thms)
qed

lemma count_report_duplicates:
  "count_list (errors (report_duplicates message seen xs new_result)) (''F11'', x, message')
     = (if message' = message then (if x \<in> seen then count_list xs x else count_list xs x - 1) else 0)"
proof (induction xs arbitrary: seen)
  case Nil
  then show ?case by (simp add: new_result_simps)
next
  case (Cons y ys)
  have "errors (report_duplicates message seen (y # ys) new_result)
          = (if y \<in> seen then [(''F11'', y, message)] else [])
            @ errors (report_duplicates message (insert y seen) ys new_result)"
    using errors_report_duplicates [of message "insert y seen" ys "error ''F11'' y message new_result"]
    by (simp add: entry_simps new_result_simps)
  then show ?case
    using Cons.IH [of "insert y seen"] by auto
qed

lemma errors_check_F11_new:
  "errors (check_F11 folders new_result)
     = errors (report_duplicates (str ''duplicate folder name'') {} (folder_names folders) new_result)
       @ errors (report_duplicates (str ''duplicate emoji used in multiple folders'') {}
                   (folder_emojis folders) new_result)"
  using errors_report_duplicates [of "str ''duplicate emoji used in multiple folders''" "{}" "folder_emojis folders"
      "report_duplicates (str ''duplicate folder name'') {} (folder_names folders) new_result"]
  by (simp add: check_F11_def)

lemma messages_differ: "str ''duplicate folder name'' \<noteq> str ''duplicate emoji used in multiple folders''"
  by (simp add: str_def)

lemma count_F11_validate_folders:
  assumes "find_desc (str ''folders-common'') root = Some fc"
  shows "count_list (errors (validate_folders root calculations r)) (''F11'', x, m)
       = count_list (errors r) (''F11'', x, m) + count_list (errors (check_F11 (folders_of fc) new_result)) (''F11'', x, m)"
proof -
  have z: "count_list (errors (check_F3 root fc (find_desc (str ''layout'') root) new_result)) (''F11'', x, m) = 0"
    "count_list (errors (check_F4 (findall_desc (str ''folder'') root) (findall_child (str ''folder'') fc) new_result)) (''F11'', x, m) = 0"
    "count_list (errors (check_F5 (folders_of fc) new_result)) (''F11'', x, m) = 0"
    "count_list (errors (check_F1 calculations (fields_in_folders (folders_of fc)) new_result)) (''F11'', x, m) = 0"
    "count_list (errors (check_F6 (folders_of fc) (set (map (\<lambda>c. attr c (str ''name'')) calculations)) new_result)) (''F11'', x, m) = 0"
    "count_list (errors (check_F7 (find_desc (str ''layout'') root) new_result)) (''F11'', x, m) = 0"
    "count_list (errors (check_F8 (folders_of fc) new_result)) (''F11'', x, m) = 0"
    "count_list (errors (check_F9 (folders_of fc) new_result)) (''F11'', x, m) = 0"
    "count_list (errors (check_F10 (folders_of fc) new_result)) (''F11'', x, m) = 0"
    by (rule count_notin; fastforce dest: rule_check_F3 rule_check_F4 rule_check_F5 rule_check_F1
        rule_check_F6 rule_check_F7 rule_check_F8 rule_check_F9 rule_check_F10)+
  show ?thesis
    by (simp only: errors_validate_folders [OF assms] count_list_append z add_0_right add_0_left)
qed

text \<open>
  Claim C7. When exactly two folders of the \<^verbatim>\<open>folders-common\<close> element carry the name
  \<open>n\<close>, F11 records exactly one duplicate-name failure for \<open>n\<close>. When two folders have the
  same leading marker \<open>m\<close>, F11 also records duplicate-marker failures for \<open>m\<close>, one for
  each folder with that marker after the first, so at least one; they are entries of their
  own, counted apart from the duplicate-name failures.
\<close>

theorem check_F11_duplicates:
  assumes "find_desc (str ''folders-common'') root = Some fc"
  shows "(count_list (folder_names (folders_of fc)) n = 2 \<longrightarrow>
            count_list (errors (validate_folders root calculations r)) (''F11'', n, str ''duplicate folder name'')
              = count_list (errors r) (''F11'', n, str ''duplicate folder name'') + 1)
       \<and> (i < j \<and> j < length (folder_names (folders_of fc))
            \<and> re_match emoji_pattern (folder_names (folders_of fc) ! i) = Some m
            \<and> re_match emoji_pattern (folder_names (folders_of fc) ! j) = Some m \<longrightarrow>
            count_list (errors (validate_folders root calculations r))
                (''F11'', m, str ''duplicate emoji used in multiple folders'')
              = count_list (errors r) (''F11'', m, str ''duplicate emoji used in multiple folders'')
                + (count_list (folder_emojis (folders_of fc)) m - 1)
            \<and> 2 \<le> count_list (folder_emojis (folders_of fc)) m)"
proof (intro conjI impI)
  assume "count_list (folder_names (folders_of fc)) n = 2"
  then show "count_list (errors (validate_folders root calculations r)) (''F11'', n, str ''duplicate folder name'')
              = count_list (errors r) (''F11'', n, str ''duplicate folder name'') + 1"
    using messages_differ
    by (simp add: count_F11_validate_folders [OF assms] errors_check_F11_new count_report_duplicates)
next
  show "count_list (errors (validate_folders root calculations r))
                (''F11'', m, str ''duplicate emoji used in multiple folders'')
              = count_list (errors r) (''F11'', m, str ''duplicate emoji used in multiple folders'')
                + (count_list (folder_emojis (folders_of fc)) m - 1)"
    using messages_differ
    by (simp add: count_F11_validate_folders [OF assms] errors_check_F11_new count_report_duplicates)
next
  let ?ns = "folder_names (folders_of fc)"
  let ?f = "\<lambda>folder_name. case re_match emoji_pattern folder_name of None \<Rightarrow> [] | Some g \<Rightarrow> [g]"
  assume h: "i < j \<and> j < length ?ns \<and> re_match emoji_pattern (?ns ! i) = Some m
            \<and> re_match emoji_pattern (?ns ! j) = Some m"
  then have "?ns = take j ?ns @ ?ns ! j # drop (Suc j) ?ns"
    by (simp add: id_take_nth_drop)
  moreover have "take j ?ns = take i (take j ?ns) @ take j ?ns ! i # drop (Suc i) (take j ?ns)"
    using h by (intro id_take_nth_drop) simp
  ultimately have "?ns = (take i (take j ?ns) @ ?ns ! i # drop (Suc i) (take j ?ns)) @ ?ns ! j # drop (Suc j) ?ns"
    using h by simp
  then have "concat (map ?f ?ns)
      = concat (map ?f ((take i (take j ?ns) @ ?ns ! i # drop (Suc i) (take j ?ns)) @ ?ns ! j # drop (Suc j) ?ns))"
    by simp
  then have "count_list (concat (map ?f ?ns)) m
      = count_list (concat (map ?f ((take i (take j ?ns) @ ?ns ! i # drop (Suc i) (take j ?ns)) @ ?ns ! j # drop (Suc j) ?ns))) m"
    by simp
  also have "\<dots> \<ge> 2"
    using h by simp
  finally show "2 \<le> count_list (folder_emojis (folders_of fc)) m"
    by (simp add: folder_emojis_def)
qed

theorem check_F11_duplicates_witness:
  "count_list (errors (validate_folders (sample_workbook messy_names)
                         (calculations_of (sample_workbook messy_names)) new_result))
      (''F11'', 0x1F4CA # str '' Metrics'', str ''duplicate folder name'') = 1
   \<and> count_list (errors (validate_folders (sample_workbook messy_names)
                         (calculations_of (sample_workbook messy_names)) new_result))
      (''F11'', [0x1F4CA], str ''duplicate emoji used in multiple folders'') = 1"
proof -
  let ?root = "sample_workbook messy_names"
  let ?fc = "the (find_desc (str ''folders-common'') ?root)"
  have "find_desc (str ''folders-common'') ?root \<noteq> None"
    by code_simp
  then have f: "find_desc (str ''folders-common'') ?root = Some ?fc"
    by simp
  have h: "count_list (folder_names (folders_of ?fc)) (0x1F4CA # str '' Metrics'') = 2"
    "0 < (8 :: nat) \<and> 8 < length (folder_names (folders_of ?fc))
       \<and> re_match emoji_pattern (folder_names (folders_of ?fc) ! 0) = Some [0x1F4CA]
       \<and> re_match emoji_pattern (folder_names (folders_of ?fc) ! 8) = Some [0x1F4CA]"
    by code_simp+
  have z: "count_list (errors new_result) (''F11'', 0x1F4CA # str '' Metrics'', str ''duplicate folder name'') = 0"
    "count_list (errors new_result) (''F11'', [0x1F4CA], str ''duplicate emoji used in multiple folders'') = 0"
    "count_list (folder_emojis (folders_of ?fc)) [0x1F4CA] - 1 = 1"
    by code_simp+
  show ?thesis
    using check_F11_duplicates [OF f, where n = "0x1F4CA # str '' Metrics''" and i = 0 and j = 8
        and m = "[0x1F4CA]" and r = new_result and calculations = "calculations_of ?root"] h z
    by simp
qed

lemma advance_Sym: "advance (Sym P) (p, c # cs) = (if P c then [(Some c, cs)] else [])"
  by simp

lemma advance_Star_Sym:
  "advance (Star (Sym P)) (p, c # cs)
     = (if P c then advance (Star (Sym P)) (Some c, cs) @ [(p, c # cs)] else [(p, c # cs)])"
  by (subst advance.simps(5)) (simp del: advance.simps(5))

lemma star_hex_then_semicolon:
  "\<forall>h \<in> set hs. hex_digit h \<Longrightarrow>
     concat (map (advance (Sym (\<lambda>x. x = 59))) (advance (Star (Sym hex_digit)) (p, hs @ 59 # rest)))
       = [(Some 59, rest)]"
proof (induction hs arbitrary: p)
  case Nil
  have "\<not> hex_digit 59"
    by (simp add: hex_digit_def ascii_digit_def)
  then show ?case
    by (simp add: advance_Star_Sym del: advance.simps(5))
next
  case (Cons h hs)
  from Cons.prems have "hex_digit h" and "h \<noteq> 59" and "\<forall>h \<in> set hs. hex_digit h"
    by (auto simp: hex_digit_def ascii_digit_def)
  with Cons.IH [of "Some h"] show ?case
    by (simp add: advance_Star_Sym del: advance.simps(5))
qed

lemma str_reference: "str ''&#x'' = [38, 35, 120]" "str '';'' = [59]" "str ''&'' = [38]"
  by (simp_all add: str_def)

lemma re_match_reference:
  assumes "hs \<noteq> []" and "\<forall>h \<in> set hs. hex_digit h"
  shows "re_match emoji_pattern (str ''&#x'' @ hs @ str '';'' @ rest) = Some (str ''&#x'' @ hs @ str '';'')"
proof -
  obtain h hs' where hs: "hs = h # hs'"
    using assms(1) by (cases hs) auto
  then have h: "hex_digit h" and hs': "\<forall>h \<in> set hs'. hex_digit h"
    using assms(2) by simp_all
  have "advance emoji_pattern (None, str ''&#x'' @ hs @ str '';'' @ rest) = [(Some 59, rest)]"
    using h star_hex_then_semicolon [OF hs', of "Some h" rest]
    by (simp add: emoji_pattern_def str_reference lit_def rplus_def hs del: advance.simps(5))
  moreover have "take (length ((str ''&#x'' @ hs @ str '';'') @ rest) - length rest) ((str ''&#x'' @ hs @ str '';'') @ rest)
      = str ''&#x'' @ hs @ str '';''"
    by simp
  ultimately show ?thesis
    by (simp add: re_match_def)
qed

lemma foldl_errors_mem:
  assumes "\<And>r x. errors (step r x) = errors r @ errors (step new_result x)"
  shows "e \<in> set (errors (foldl step new_result xs)) \<longleftrightarrow> (\<exists>x \<in> set xs. e \<in> set (errors (step new_result x)))"
  using foldl_errors [of step new_result xs, OF assms] by (auto simp: new_result_simps)

lemma mem_check_F8:
  "e \<in> set (errors (check_F8 folders new_result)) \<longleftrightarrow>
     (\<exists>folder \<in> set folders.
        py_in (str ''&'') (attr_or folder (str ''name'') [])
        \<and> \<not> py_in (str ''&amp;'') (attr_or folder (str ''name'') [])
        \<and> e = (''F8'', attr_or folder (str ''name'') [], str ''has unescaped &''))"
  unfolding check_F8_def
  by (subst foldl_errors_mem) (auto simp: Let_def entry_simps new_result_simps)

lemma mem_check_F10:
  "e \<in> set (errors (check_F10 folders new_result)) \<longleftrightarrow>
     (\<exists>folder \<in> set folders.
        re_match emoji_pattern (attr_or folder (str ''name'') []) = None
        \<and> e = (''F10'', attr_or folder (str ''name'') [], str ''missing emoji prefix (use &#x1F4CA; format)''))"
  unfolding check_F10_def
  by (subst foldl_errors_mem) (auto simp: Let_def entry_simps new_result_simps)

text \<open>
  Claim C10. A folder of the \<^verbatim>\<open>folders-common\<close> element whose name starts with a
  character reference \<^verbatim>\<open>&#x\<close>, hexadecimal digits, \<^verbatim>\<open>;\<close> and does not contain
  \<^verbatim>\<open>&amp;\<close> gets an F8 failure for an unescaped ampersand, while the pattern of F10
  matches the reference at the start of the name, so F10 records no failure for that name.
\<close>

theorem check_F8_character_reference:
  assumes "find_desc (str ''folders-common'') root = Some fc"
    and "folder \<in> set (folders_of fc)"
    and "attr_or folder (str ''name'') [] = str ''&#x'' @ hs @ str '';'' @ rest"
    and "hs \<noteq> []" and "\<forall>h \<in> set hs. hex_digit h"
    and "\<not> py_in (str ''&amp;'') (str ''&#x'' @ hs @ str '';'' @ rest)"
  shows "(''F8'', str ''&#x'' @ hs @ str '';'' @ rest, str ''has unescaped &'')
            \<in> set (errors (validate_folders root calculations r))
       \<and> re_match emoji_pattern (str ''&#x'' @ hs @ str '';'' @ rest) = Some (str ''&#x'' @ hs @ str '';'')
       \<and> (''F10'', str ''&#x'' @ hs @ str '';'' @ rest, str ''missing emoji prefix (use &#x1F4CA; format)'')
            \<notin> set (errors (check_F10 (folders_of fc) new_result))"
proof (intro conjI)
  have "py_in (str ''&'') (str ''&#x'' @ hs @ str '';'' @ rest)"
    by (simp add: str_reference startswith_def)
  with assms(2,3,6) have "(''F8'', str ''&#x'' @ hs @ str '';'' @ rest, str ''has unescaped &'')
      \<in> set (errors (check_F8 (folders_of fc) new_result))"
    unfolding mem_check_F8 by (intro bexI [of _ folder]) simp_all
  then show "(''F8'', str ''&#x'' @ hs @ str '';'' @ rest, str ''has unescaped &'')
      \<in> set (errors (validate_folders root calculations r))"
    by (simp add: errors_validate_folders [OF assms(1)])
  show m: "re_match emoji_pattern (str ''&#x'' @ hs @ str '';'' @ rest) = Some (str ''&#x'' @ hs @ str '';'')"
    using assms(4,5) by (rule re_match_reference)
  show "(''F10'', str ''&#x'' @ hs @ str '';'' @ rest, str ''missing emoji prefix (use &#x1F4CA; format)'')
            \<notin> set (errors (check_F10 (folders_of fc) new_result))"
    unfolding mem_check_F10 using m by auto
qed

theorem check_F8_character_reference_witness:
  "(''F8'', str ''&#x1F4C5; Dates'', str ''has unescaped &'')
      \<in> set (errors (validate_folders (sample_workbook messy_names)
                       (calculations_of (sample_workbook messy_names)) new_result))
   \<and> re_match emoji_pattern (str ''&#x1F4C5; Dates'') = Some (str ''&#x1F4C5;'')"
proof -
  let ?root = "sample_workbook messy_names"
  let ?fc = "the (find_desc (str ''folders-common'') ?root)"
  let ?folder = "Element (str ''folder'') [(str ''name'', str ''&#x1F4C5; Dates'')] []"
  have "find_desc (str ''folders-common'') ?root \<noteq> None"
    by code_simp
  then have f: "find_desc (str ''folders-common'') ?root = Some ?fc"
    by simp
  have h: "?folder \<in> set (folders_of ?fc)"
    "attr_or ?folder (str ''name'') [] = str ''&#x'' @ str ''1F4C5'' @ str '';'' @ str '' Dates''"
    "str ''1F4C5'' \<noteq> []"
    "\<forall>h \<in> set (str ''1F4C5''). hex_digit h"
    "\<not> py_in (str ''&amp;'') (str ''&#x'' @ str ''1F4C5'' @ str '';'' @ str '' Dates'')"
    by code_simp+
  have s: "str ''&#x'' @ str ''1F4C5'' @ str '';'' @ str '' Dates'' = str ''&#x1F4C5; Dates''"
    "str ''&#x'' @ str ''1F4C5'' @ str '';'' = str ''&#x1F4C5;''"
    by code_simp+
  show ?thesis
    using check_F8_character_reference [OF f h, of "calculations_of ?root" new_result]
    by (simp only: s simp_thms)
qed

lemma paths_kids: "map fst (kids n) = map (\<lambda>i. fst n @ [i]) [0..<length (children (snd n))]"
proof -
  have a: "map fst (enumerate 0 (children (snd n))) = [0..<length (children (snd n))]"
    by (simp add: map_fst_enumerate)
  have "map fst (kids n) = map ((\<lambda>i. fst n @ [i]) \<circ> fst) (enumerate 0 (children (snd n)))"
    by (simp add: kids_def comp_def)
  also have "\<dots> = map (\<lambda>i. fst n @ [i]) (map fst (enumerate 0 (children (snd n))))"
    by (simp only: map_map)
  finally show ?thesis
    by (simp only: a)
qed

lemma index_of_path:
  assumes "i < n"
  shows "length (takeWhile (\<lambda>y. y \<noteq> p @ [i]) (map (\<lambda>i. p @ [i]) [0..<n])) = i"
proof -
  have "[0..<n] = [0..<i] @ i # [Suc i..<n]"
    using assms by (metis upt_conv_Cons upt_add_eq_append le0 le_add_diff_inverse less_imp_le_nat)
  then have "map (\<lambda>i. p @ [i]) [0..<n]
      = map (\<lambda>i. p @ [i]) [0..<i] @ (p @ [i]) # map (\<lambda>i. p @ [i]) [Suc i..<n]"
    by simp
  then have "takeWhile (\<lambda>y. y \<noteq> p @ [i]) (map (\<lambda>i. p @ [i]) [0..<n])
      = takeWhile (\<lambda>y. y \<noteq> p @ [i]) (map (\<lambda>i. p @ [i]) [0..<i] @ (p @ [i]) # map (\<lambda>i. p @ [i]) [Suc i..<n])"
    by (simp only:)
  also have "\<dots> = map (\<lambda>i. p @ [i]) [0..<i]"
    by (subst takeWhile_append2) auto
  finally have "takeWhile (\<lambda>y. y \<noteq> p @ [i]) (map (\<lambda>i. p @ [i]) [0..<n]) = map (\<lambda>i. p @ [i]) [0..<i]" .
  then show ?thesis
    by simp
qed

lemma index_or_minus_kids:
  assumes "q \<in> set (map fst (kids n))"
  shows "index_or_minus (map fst (kids n)) q = int (last q)"
proof -
  from assms obtain i where i: "i < length (children (snd n))" "q = fst n @ [i]"
    by (auto simp: paths_kids)
  then show ?thesis
    using assms index_of_path [OF i(1), of "fst n"]
    by (simp add: index_or_minus_def paths_kids del: set_map map_map)
qed

lemma errors_check_F3_ok:
  assumes "last (fst fc) < last (fst lay)"
  shows "errors (check_F3 root fc (Some lay) new_result) = []"
proof (cases "List.find (\<lambda>elem. fst fc \<in> set (map fst (kids elem)) \<and> fst lay \<in> set (map fst (kids elem))) (iter root)")
  case None
  then show ?thesis
    by (simp add: check_F3_def new_result_simps)
next
  case (Some parent)
  then have "fst fc \<in> set (map fst (kids parent))" and "fst lay \<in> set (map fst (kids parent))"
    by (auto simp: find_Some_iff)
  then have "index_or_minus (map fst (kids parent)) (fst fc) = int (last (fst fc))"
    and "index_or_minus (map fst (kids parent)) (fst lay) = int (last (fst lay))"
    by (simp_all only: index_or_minus_kids)
  with Some assms show ?thesis
    by (simp add: check_F3_def Let_def entry_simps new_result_simps del: set_map)
qed

lemma errors_check_F4_ok:
  assumes "\<forall>f \<in> set all_folders. fst f \<in> set (map fst inside)"
  shows "errors (check_F4 all_folders inside new_result) = []"
proof -
  have "filter (\<lambda>f. fst f \<notin> set (map fst inside)) all_folders = []"
    using assms by (simp add: filter_empty_conv del: set_map)
  then show ?thesis
    by (simp add: check_F4_def entry_simps new_result_simps del: set_map)
qed

lemma foldl_errors_Nil:
  assumes "\<And>r x. errors (step r x) = errors r @ errors (step new_result x)"
    and "\<And>x. x \<in> set xs \<Longrightarrow> errors (step new_result x) = []"
  shows "errors (foldl step new_result xs) = []"
  using foldl_errors [of step new_result xs, OF assms(1)] assms(2)
  by (simp add: new_result_simps)

lemma errors_check_F5_ok:
  assumes "\<forall>folder \<in> set folders. \<not> truthy (attr folder (str ''role''))"
  shows "errors (check_F5 folders new_result) = []"
  unfolding check_F5_def
  by (rule foldl_errors_Nil) (use assms in \<open>simp_all add: entry_simps new_result_simps\<close>)

lemma errors_check_F1_ok:
  assumes "\<forall>c \<in> set calculations.
             case attr c (str ''name'') of
               None \<Rightarrow> True
             | Some n \<Rightarrow> n \<in> in_folders \<or> str ''['' @ n @ str '']'' \<in> in_folders"
  shows "errors (check_F1 calculations in_folders new_result) = []"
  unfolding check_F1_def
  by (rule foldl_errors_Nil)
    (use assms in \<open>auto simp add: Let_def entry_simps new_result_simps split: option.splits\<close>)

lemma errors_check_F6_ok:
  assumes "\<forall>item \<in> set (concat (map (findall_in (str ''folder-item'')) folders)).
             Some (strip_chars (\<lambda>c. c \<in> set (str ''[]'')) (attr_or item (str ''name'') [])) \<in> calc_names
             \<or> Some (attr_or item (str ''name'') []) \<in> calc_names"
  shows "errors (check_F6 folders calc_names new_result) = []"
  unfolding check_F6_def
  by (rule foldl_errors_Nil)
    (use assms in \<open>auto simp add: Let_def entry_simps new_result_simps simp del: set_concat\<close>)

lemma errors_check_F7_ok:
  "attr (snd lay) (str ''show-structure'') = Some (str ''true'') \<Longrightarrow> errors (check_F7 (Some lay) new_result) = []"
  by (simp add: check_F7_def entry_simps new_result_simps)

lemma errors_check_F8_ok:
  assumes "\<forall>folder \<in> set folders. py_in (str ''&'') (attr_or folder (str ''name'') [])
             \<longrightarrow> py_in (str ''&amp;'') (attr_or folder (str ''name'') [])"
  shows "errors (check_F8 folders new_result) = []"
  unfolding check_F8_def
  by (rule foldl_errors_Nil) (use assms in \<open>auto simp add: Let_def entry_simps new_result_simps\<close>)

lemma errors_check_F9_new:
  "errors (check_F9 folders new_result) =
     (if length folders > MAX_FOLDERS
      then [(''F9'', str ''XML'', str ''Too many folders ('' @ str_of_nat (length folders)
                @ str '') - maximum is '' @ str_of_nat MAX_FOLDERS)]
      else [])"
  by (simp add: check_F9_def entry_simps new_result_simps)

lemma filter_rules_Nil:
  assumes "\<And>e. e \<in> set es \<Longrightarrow> fst e = k" and "k \<notin> K"
  shows "filter (\<lambda>e. fst e \<in> K) es = []"
  using assms by (auto simp: filter_empty_conv)

text \<open>
  Claim C3, amended. Take a document with a \<^verbatim>\<open>folders-common\<close> element and a
  \<^verbatim>\<open>layout\<close> element that is a later child of the same parent and has
  \<^verbatim>\<open>show-structure\<close> set to \<^verbatim>\<open>true\<close>, in which every \<^verbatim>\<open>folder\<close> element is a child
  of the \<^verbatim>\<open>folders-common\<close> element, no folder has a role, every calculated field is
  listed in a folder by its name or by its name in brackets, every folder item names a
  calculated field, and no folder name has an unescaped ampersand. Then the rules F1 to F9
  record no failure when there are at most \<^verbatim>\<open>MAX_FOLDERS\<close>, that is six, folders; with
  more than six folders they record exactly one failure, the aggregate F9 failure.
\<close>

theorem validate_folders_F1_to_F9:
  assumes "find_desc (str ''folders-common'') root = Some fc"
    and "find_desc (str ''layout'') root = Some lay"
    and "sibling_before fc lay"
    and "attr (snd lay) (str ''show-structure'') = Some (str ''true'')"
    and "\<forall>f \<in> set (findall_desc (str ''folder'') root). fst f \<in> set (map fst (findall_child (str ''folder'') fc))"
    and "\<forall>folder \<in> set (folders_of fc). \<not> truthy (attr folder (str ''role''))"
    and "\<forall>c \<in> set calculations.
           case attr c (str ''name'') of
             None \<Rightarrow> True
           | Some n \<Rightarrow> n \<in> fields_in_folders (folders_of fc)
                        \<or> str ''['' @ n @ str '']'' \<in> fields_in_folders (folders_of fc)"
    and "\<forall>item \<in> set (concat (map (findall_in (str ''folder-item'')) (folders_of fc))).
           Some (strip_chars (\<lambda>c. c \<in> set (str ''[]'')) (attr_or item (str ''name'') []))
              \<in> set (map (\<lambda>c. attr c (str ''name'')) calculations)
           \<or> Some (attr_or item (str ''name'') []) \<in> set (map (\<lambda>c. attr c (str ''name'')) calculations)"
    and "\<forall>folder \<in> set (folders_of fc). py_in (str ''&'') (attr_or folder (str ''name'') [])
           \<longrightarrow> py_in (str ''&amp;'') (attr_or folder (str ''name'') [])"
  shows "filter (\<lambda>e. fst e \<in> F1_to_F9) (errors (validate_folders root calculations r))
       = filter (\<lambda>e. fst e \<in> F1_to_F9) (errors r)
         @ (if length (folders_of fc) > MAX_FOLDERS
            then [(''F9'', str ''XML'', str ''Too many folders ('' @ str_of_nat (length (folders_of fc))
                      @ str '') - maximum is '' @ str_of_nat MAX_FOLDERS)]
            else [])"
proof -
  have e3: "errors (check_F3 root fc (find_desc (str ''layout'') root) new_result) = []"
    using assms(2,3) by (simp add: errors_check_F3_ok sibling_before_def)
  have e4: "errors (check_F4 (findall_desc (str ''folder'') root) (findall_child (str ''folder'') fc) new_result) = []"
    using assms(5) by (rule errors_check_F4_ok)
  have e5: "errors (check_F5 (folders_of fc) new_result) = []"
    using assms(6) by (rule errors_check_F5_ok)
  have e1: "errors (check_F1 calculations (fields_in_folders (folders_of fc)) new_result) = []"
    using assms(7) by (rule errors_check_F1_ok)
  have e6: "errors (check_F6 (folders_of fc) (set (map (\<lambda>c. attr c (str ''name'')) calculations)) new_result) = []"
    using assms(8) by (rule errors_check_F6_ok)
  have e7: "errors (check_F7 (find_desc (str ''layout'') root) new_result) = []"
    using assms(2,4) by (simp add: errors_check_F7_ok)
  have e8: "errors (check_F8 (folders_of fc) new_result) = []"
    using assms(9) by (rule errors_check_F8_ok)
  have e10: "filter (\<lambda>e. fst e \<in> F1_to_F9) (errors (check_F10 (folders_of fc) new_result)) = []"
    by (rule filter_rules_Nil [where k = "''F10''"]) (simp_all add: rule_check_F10 F1_to_F9_def)
  have e11: "filter (\<lambda>e. fst e \<in> F1_to_F9) (errors (check_F11 (folders_of fc) new_result)) = []"
    by (rule filter_rules_Nil [where k = "''F11''"]) (simp_all add: rule_check_F11 F1_to_F9_def)
  have e9: "filter (\<lambda>e. fst e \<in> F1_to_F9) (errors (check_F9 (folders_of fc) new_result))
      = (if length (folders_of fc) > MAX_FOLDERS
         then [(''F9'', str ''XML'', str ''Too many folders ('' @ str_of_nat (length (folders_of fc))
                   @ str '') - maximum is '' @ str_of_nat MAX_FOLDERS)]
         else [])"
    by (simp add: errors_check_F9_new F1_to_F9_def)
  show ?thesis
    by (simp only: errors_validate_folders [OF assms(1)] e3 e4 e5 e1 e6 e7 e8 filter_append e9 e10 e11
        append_Nil append_Nil2 filter.simps)
qed

theorem validate_folders_F1_to_F9_witness:
  "filter (\<lambda>e. fst e \<in> F1_to_F9)
      (errors (validate_folders (sample_workbook six_names) (calculations_of (sample_workbook six_names)) new_result)) = []
   \<and> filter (\<lambda>e. fst e \<in> F1_to_F9)
      (errors (validate_folders (sample_workbook eight_names) (calculations_of (sample_workbook eight_names)) new_result))
     = [(''F9'', str ''XML'', str ''Too many folders (8) - maximum is 6'')]"
proof -
  let ?r6 = "sample_workbook six_names" and ?r8 = "sample_workbook eight_names"
  let ?fc6 = "the (find_desc (str ''folders-common'') ?r6)" and ?lay6 = "the (find_desc (str ''layout'') ?r6)"
  let ?fc8 = "the (find_desc (str ''folders-common'') ?r8)" and ?lay8 = "the (find_desc (str ''layout'') ?r8)"
  have "find_desc (str ''folders-common'') ?r6 \<noteq> None" "find_desc (str ''layout'') ?r6 \<noteq> None"
    "find_desc (str ''folders-common'') ?r8 \<noteq> None" "find_desc (str ''layout'') ?r8 \<noteq> None"
    by code_simp+
  then have f: "find_desc (str ''folders-common'') ?r6 = Some ?fc6" "find_desc (str ''layout'') ?r6 = Some ?lay6"
    "find_desc (str ''folders-common'') ?r8 = Some ?fc8" "find_desc (str ''layout'') ?r8 = Some ?lay8"
    by simp_all
  have h6: "sibling_before ?fc6 ?lay6"
    "attr (snd ?lay6) (str ''show-structure'') = Some (str ''true'')"
    "\<forall>f \<in> set (findall_desc (str ''folder'') ?r6). fst f \<in> set (map fst (findall_child (str ''folder'') ?fc6))"
    "\<forall>folder \<in> set (folders_of ?fc6). \<not> truthy (attr folder (str ''role''))"
    "\<forall>c \<in> set (calculations_of ?r6).
           case attr c (str ''name'') of
             None \<Rightarrow> True
           | Some n \<Rightarrow> n \<in> fields_in_folders (folders_of ?fc6)
                        \<or> str ''['' @ n @ str '']'' \<in> fields_in_folders (folders_of ?fc6)"
    "\<forall>item \<in> set (concat (map (findall_in (str ''folder-item'')) (folders_of ?fc6))).
           Some (strip_chars (\<lambda>c. c \<in> set (str ''[]'')) (attr_or item (str ''name'') []))
              \<in> set (map (\<lambda>c. attr c (str ''name'')) (calculations_of ?r6))
           \<or> Some (attr_or item (str ''name'') []) \<in> set (map (\<lambda>c. attr c (str ''name'')) (calculations_of ?r6))"
    "\<forall>folder \<in> set (folders_of ?fc6). py_in (str ''&'') (attr_or folder (str ''name'') [])
           \<longrightarrow> py_in (str ''&amp;'') (attr_or folder (str ''name'') [])"
    by code_simp+
  have h8: "sibling_before ?fc8 ?lay8"
    "attr (snd ?lay8) (str ''show-structure'') = Some (str ''true'')"
    "\<forall>f \<in> set (findall_desc (str ''folder'') ?r8). fst f \<in> set (map fst (findall_child (str ''folder'') ?fc8))"
    "\<forall>folder \<in> set (folders_of ?fc8). \<not> truthy (attr folder (str ''role''))"
    "\<forall>c \<in> set (calculations_of ?r8).
           case attr c (str ''name'') of
             None \<Rightarrow> True
           | Some n \<Rightarrow> n \<in> fields_in_folders (folders_of ?fc8)
                        \<or> str ''['' @ n @ str '']'' \<in> fields_in_folders (folders_of ?fc8)"
    "\<forall>item \<in> set (concat (map (findall_in (str ''folder-item'')) (folders_of ?fc8))).
           Some (strip_chars (\<lambda>c. c \<in> set (str ''[]'')) (attr_or item (str ''name'') []))
              \<in> set (map (\<lambda>c. attr c (str ''name'')) (calculations_of ?r8))
           \<or> Some (attr_or item (str ''name'') []) \<in> set (map (\<lambda>c. attr c (str ''name'')) (calculations_of ?r8))"
    "\<forall>folder \<in> set (folders_of ?fc8). py_in (str ''&'') (attr_or folder (str ''name'') [])
           \<longrightarrow> py_in (str ''&amp;'') (attr_or folder (str ''name'') [])"
    by code_simp+
  have n: "\<not> length (folders_of ?fc6) > MAX_FOLDERS" "length (folders_of ?fc8) > MAX_FOLDERS"
    "str ''Too many folders ('' @ str_of_nat (length (folders_of ?fc8)) @ str '') - maximum is '' @ str_of_nat MAX_FOLDERS
       = str ''Too many folders (8) - maximum is 6''"
    "filter (\<lambda>e. fst e \<in> F1_to_F9) (errors new_result) = []"
    by code_simp+
  show ?thesis
    using validate_folders_F1_to_F9 [OF f(1) f(2) h6, of new_result]
      validate_folders_F1_to_F9 [OF f(3) f(4) h8, of new_result] n
    by simp
qed

text \<open>
  Claim C3 as stated fails with eight folders: the sample workbook with eight folders,
  each with a marker of its own, meets the conditions of the claim, and F9 fails, because
  the maximum of the code is six.
\<close>

theorem eight_folders_counterexample:
  "length (folders_of (the (find_desc (str ''folders-common'') (sample_workbook eight_names)))) = 8
   \<and> distinct (folder_emojis (folders_of (the (find_desc (str ''folders-common'') (sample_workbook eight_names)))))
   \<and> length (folder_emojis (folders_of (the (find_desc (str ''folders-common'') (sample_workbook eight_names))))) = 8
   \<and> errors (validate_folders (sample_workbook eight_names) (calculations_of (sample_workbook eight_names)) new_result)
       = [(''F9'', str ''XML'', str ''Too many folders (8) - maximum is 6'')]"
  by code_simp

end
